theory Spec2Isabelle
  imports Complex_Main
begin

section \<open>JavaScript values\<close>

text \<open>
  A JavaScript string is a sequence of UTF-16 code units; \<open>length\<close>, \<open>slice\<close> and
  \<open>substring\<close> count code units. The file names and the literals of the program contain
  Japanese text, so a string is modelled as the list of its code units.
\<close>

type_synonym jstr = "nat list"

definition ascii :: "string \<Rightarrow> jstr" where
  "ascii s = map of_char s"

text \<open>
  A cell of a two-dimensional array returned by \<open>getValues()\<close>: a string, a number, a
  boolean or a Date. \<open>CUndef\<close> is \<open>undefined\<close>, which is what reading a hole or an index
  past the end of a row gives. A number is the real number that the double stands for;
  a Date is its time stamp.
\<close>

datatype cell = CStr jstr | CNum real | CBool bool | CDate int | CUndef

text \<open>\<open>row[i]\<close>: reading past the end of an array gives \<open>undefined\<close>.\<close>

definition cellAt :: "cell list \<Rightarrow> nat \<Rightarrow> cell" where
  "cellAt row i = (if i < length row then row ! i else CUndef)"

text \<open>\<open>row[i] = v\<close>: writing past the end extends the array, leaving holes.\<close>

definition setCell :: "cell list \<Rightarrow> nat \<Rightarrow> cell \<Rightarrow> cell list" where
  "setCell row i v =
     (if i < length row then row[i := v]
      else row @ replicate (i - length row) CUndef @ [v])"

section \<open>Configuration and platform services\<close>

text \<open>
  \<open>COLUMN_NAMES\<close> is the table read by \<open>loadSettings\<close> from the settings sheet (a missing
  key reads as \<open>undefined\<close>). \<open>formatDate d\<close> stands for the platform call
  \<open>Utilities.formatDate(d, "JST", "yyyy/MM/dd")\<close> and \<open>dateToString d\<close> for \<open>String(d)\<close>
  of a Date; both belong to the runtime, not to the program. So does \<open>numberToString x\<close>,
  which stands for \<open>String(x)\<close> of a number that is not an integer of magnitude up to
  \<open>2 ^ 53 - 1\<close> (a fraction, or a number printed with rounded digits or an exponent).
\<close>

record env =
  COLUMN_NAMES :: "string \<Rightarrow> cell"
  formatDate :: "int \<Rightarrow> jstr"
  dateToString :: "int \<Rightarrow> jstr"
  numberToString :: "real \<Rightarrow> jstr"

text \<open>
  A file of a folder, as the program sees it: its name, and the array \<open>data\<close> that
  \<open>processExcelFile\<close> reads from the target sheet of the converted copy (source lines
  326 to 349). \<open>None\<close> stands for every way that read fails: the conversion raises, the
  target sheet is missing, or the range read raises.
\<close>

record document =
  fileName :: jstr
  sheetValues :: "cell list list option"

section \<open>Category of a file\<close>

definition underscore :: nat where "underscore = 95"

text \<open>The category labels: U+88FD U+4F5C (fabricated), U+8CFC U+5165 (purchased),
  U+96FB U+6C17 (electrical).\<close>

definition SEISAKU :: jstr where "SEISAKU = [35069, 20316]"
definition KOUNYUU :: jstr where "KOUNYUU = [36092, 20837]"
definition DENKI :: jstr where "DENKI = [38651, 27671]"

text \<open>
  \<open>fileName.match(/_(A|B|C)_/)\<close> with the three labels: the leftmost underscore that is
  followed by a label and another underscore decides; without a match the category is
  the empty string.
\<close>

fun determineCategory :: "jstr \<Rightarrow> jstr" where
  "determineCategory [] = []"
| "determineCategory (c # cs) =
     (if c = underscore \<and> take 3 cs = SEISAKU @ [underscore] then SEISAKU
      else if c = underscore \<and> take 3 cs = KOUNYUU @ [underscore] then KOUNYUU
      else if c = underscore \<and> take 3 cs = DENKI @ [underscore] then DENKI
      else determineCategory cs)"

section \<open>Normalising one document: \<open>processExcelFile\<close>\<close>

definition REMOVE_COLUMN_COUNT :: nat where "REMOVE_COLUMN_COUNT = 1"
definition REQUIRED_COLUMN_COUNT :: nat where "REQUIRED_COLUMN_COUNT = 9"
definition STOCK_STATUS_COLUMN_INDEX :: nat where "STOCK_STATUS_COLUMN_INDEX = 2"
definition DATE_FORMAT_COLUMN_L :: nat where "DATE_FORMAT_COLUMN_L = 7"
definition DATE_FORMAT_COLUMN_M :: nat where "DATE_FORMAT_COLUMN_M = 8"
definition DATE_FORMAT_COLUMN_N :: nat where "DATE_FORMAT_COLUMN_N = 9"

text \<open>The exclusion marker: U+793E U+5185 U+5728 U+5EAB U+306A U+3057.\<close>

definition excludeStockStatus :: jstr where
  "excludeStockStatus = [31038, 20869, 22312, 24235, 12394, 12375]"

text \<open>\<open>newRow.splice(0, 1); return newRow.slice(0, 9)\<close>\<close>

definition pruneRow :: "cell list \<Rightarrow> cell list" where
  "pruneRow row = take REQUIRED_COLUMN_COUNT (drop REMOVE_COLUMN_COUNT row)"

text \<open>
  \<open>data.filter((row, index) => index === 0 || row[2] !== excludeStockStatus)\<close>:
  the strict inequality holds for every cell that is not that very string.
\<close>

definition keepRow :: "cell list \<Rightarrow> bool" where
  "keepRow row \<longleftrightarrow> cellAt row STOCK_STATUS_COLUMN_INDEX \<noteq> CStr excludeStockStatus"

fun filterStock :: "cell list list \<Rightarrow> cell list list" where
  "filterStock [] = []"
| "filterStock (header # rows) = header # filter keepRow rows"

text \<open>The loop \<open>for (let i = 1; i < data.length; i++) data[i][7] = ""\<close>, run for the
  purchased and the electrical category only.\<close>

fun clearColumnL :: "jstr \<Rightarrow> cell list list \<Rightarrow> cell list list" where
  "clearColumnL category [] = []"
| "clearColumnL category (header # rows) =
     (if category = KOUNYUU \<or> category = DENKI
      then header # map (\<lambda>row. setCell row DATE_FORMAT_COLUMN_L (CStr [])) rows
      else header # rows)"

fun addCategoryColumn :: "env \<Rightarrow> jstr \<Rightarrow> cell list list \<Rightarrow> cell list list" where
  "addCategoryColumn e category [] = []"
| "addCategoryColumn e category (header # rows) =
     (COLUMN_NAMES e ''D'' # header) # map (\<lambda>row. CStr category # row) rows"

definition formatRow :: "env \<Rightarrow> cell list \<Rightarrow> cell list" where
  "formatRow e row =
     (let dateL = cellAt row DATE_FORMAT_COLUMN_M;
          dateM = cellAt row DATE_FORMAT_COLUMN_N;
          row1 = (case dateL of CDate d \<Rightarrow> setCell row DATE_FORMAT_COLUMN_M (CStr (formatDate e d))
                  | _ \<Rightarrow> row)
      in (case dateM of CDate d \<Rightarrow> setCell row1 DATE_FORMAT_COLUMN_N (CStr (formatDate e d))
          | _ \<Rightarrow> row1))"

fun formatDates :: "env \<Rightarrow> cell list list \<Rightarrow> cell list list" where
  "formatDates e [] = []"
| "formatDates e (header # rows) = header # map (formatRow e) rows"

text \<open>The result is \<open>null\<close> (\<open>None\<close>) or the pair \<open>{fileData, category}\<close>.\<close>

definition processExcelFile :: "env \<Rightarrow> document \<Rightarrow> (cell list list \<times> jstr) option" where
  "processExcelFile e f =
     (case sheetValues f of
        None \<Rightarrow> None
      | Some raw \<Rightarrow>
          (let data = map pruneRow raw;
               data = filterStock data;
               category = determineCategory (fileName f);
               data = clearColumnL category data;
               data = addCategoryColumn e category data;
               data = formatDates e data
           in Some (data, category)))"

section \<open>Strings: the operations the program uses\<close>

definition isDigit :: "nat \<Rightarrow> bool" where
  "isDigit c \<longleftrightarrow> 48 \<le> c \<and> c \<le> 57"

text \<open>The white space of \<open>trim\<close> and of \<open>parseInt\<close> (white space and line terminators).\<close>

definition isWhiteSpace :: "nat \<Rightarrow> bool" where
  "isWhiteSpace c \<longleftrightarrow>
     c \<in> {9, 10, 11, 12, 13, 32, 160, 5760, 8232, 8233, 8239, 8287, 12288, 65279}
     \<or> (8192 \<le> c \<and> c \<le> 8202)"

definition trim :: "jstr \<Rightarrow> jstr" where
  "trim s = rev (dropWhile isWhiteSpace (rev (dropWhile isWhiteSpace s)))"

text \<open>\<open>s.replace(/[^0-9]/g, "")\<close>\<close>

definition digitsOnly :: "jstr \<Rightarrow> jstr" where
  "digitsOnly s = filter isDigit s"

definition endsWith :: "jstr \<Rightarrow> jstr \<Rightarrow> bool" where
  "endsWith s suffix \<longleftrightarrow>
     length suffix \<le> length s \<and> drop (length s - length suffix) s = suffix"

definition startsWith :: "jstr \<Rightarrow> jstr \<Rightarrow> bool" where
  "startsWith s p \<longleftrightarrow> take (length p) s = p"

fun includesStr :: "jstr \<Rightarrow> jstr \<Rightarrow> bool" where
  "includesStr [] sub \<longleftrightarrow> sub = []"
| "includesStr (c # cs) sub \<longleftrightarrow> startsWith (c # cs) sub \<or> includesStr cs sub"

text \<open>
  \<open>toLowerCase\<close> on the letters A to Z. The program lowers a file name only to compare
  its end with \<open>.xls\<close>, \<open>.xlsx\<close> and \<open>.xlsm\<close>, and no character outside A to Z is mapped
  to one of the letters of these suffixes, so the other mappings of \<open>toLowerCase\<close> do
  not change the comparison. The same function serves for the match of \<open>unit\<close> in any
  case below.
\<close>

definition toLowerCase :: "jstr \<Rightarrow> jstr" where
  "toLowerCase s = map (\<lambda>c. if 65 \<le> c \<and> c \<le> 90 then c + 32 else c) s"

definition padStart :: "nat \<Rightarrow> nat \<Rightarrow> jstr \<Rightarrow> jstr" where
  "padStart n c s = replicate (n - length s) c @ s"

definition joinWith :: "jstr \<Rightarrow> jstr list \<Rightarrow> jstr" where
  "joinWith sep xs = (case xs of [] \<Rightarrow> [] | y # ys \<Rightarrow> y @ concat (map (\<lambda>z. sep @ z) ys))"

text \<open>The decimal numeral of a natural number.\<close>

fun decimal :: "nat \<Rightarrow> jstr" where
  "decimal n = (if n < 10 then [48 + n] else decimal (n div 10) @ [48 + n mod 10])"

declare decimal.simps [simp del]

text \<open>\<open>Number.MAX_SAFE_INTEGER\<close>: up to it every integer is a double of its own, and
  the arithmetic of the program on integers is exact.\<close>

definition MAX_SAFE_INTEGER :: int where
  "MAX_SAFE_INTEGER = 9007199254740991"

text \<open>
  \<open>String(v)\<close> for a cell. An integer of magnitude up to \<open>MAX_SAFE_INTEGER\<close> is printed
  as its decimal numeral; the text of any other number is left to the runtime.
\<close>

fun toString :: "env \<Rightarrow> cell \<Rightarrow> jstr" where
  "toString e (CStr s) = s"
| "toString e (CNum x) =
     (if of_int \<lfloor>x\<rfloor> = x \<and> \<bar>\<lfloor>x\<rfloor>\<bar> \<le> MAX_SAFE_INTEGER
      then (if \<lfloor>x\<rfloor> < 0 then 45 # decimal (nat (- \<lfloor>x\<rfloor>)) else decimal (nat \<lfloor>x\<rfloor>))
      else numberToString e x)"
| "toString e (CBool b) = (if b then ascii ''true'' else ascii ''false'')"
| "toString e (CDate d) = dateToString e d"
| "toString e CUndef = ascii ''undefined''"

subsection \<open>\<open>parseInt\<close> without a radix\<close>

text \<open>
  Leading white space is skipped, a sign is read, a prefix \<open>0x\<close> or \<open>0X\<close> selects radix
  16, and the longest prefix of digits of the radix is the value; without a digit the
  result is \<open>NaN\<close>, here \<open>None\<close>. The value here is the exact integer, which is the
  number the program gets as long as it does not exceed \<open>MAX_SAFE_INTEGER\<close>: always
  for the at most eight characters of a file name, and for the digits of a token under
  the condition \<open>exactKeys\<close> below.
\<close>

definition digitValue :: "nat \<Rightarrow> nat" where
  "digitValue c =
     (if 48 \<le> c \<and> c \<le> 57 then c - 48
      else if 97 \<le> c \<and> c \<le> 102 then c - 87
      else c - 55)"

definition isRadixDigit :: "nat \<Rightarrow> nat \<Rightarrow> bool" where
  "isRadixDigit R c \<longleftrightarrow>
     isDigit c \<or> (R = 16 \<and> ((97 \<le> c \<and> c \<le> 102) \<or> (65 \<le> c \<and> c \<le> 70)))"

definition parseInt :: "jstr \<Rightarrow> int option" where
  "parseInt str =
     (let S = dropWhile isWhiteSpace str;
          sign = (if take 1 S = [45] then - 1 else 1);
          S = (if take 1 S = [45] \<or> take 1 S = [43] then drop 1 S else S);
          hex = (take 2 S = [48, 120] \<or> take 2 S = [48, 88]);
          R = (if hex then 16 else 10);
          S = (if hex then drop 2 S else S);
          Z = takeWhile (isRadixDigit R) S
      in if Z = [] then None
         else Some (sign * int (foldl (\<lambda>a c. a * R + digitValue c) 0 Z)))"

text \<open>\<open>a > b\<close> on numbers: false as soon as one side is \<open>NaN\<close>.\<close>

fun jsGreater :: "int option \<Rightarrow> int option \<Rightarrow> bool" where
  "jsGreater (Some a) (Some b) \<longleftrightarrow> a > b"
| "jsGreater _ _ \<longleftrightarrow> False"

section \<open>Keys and tokens from a file name\<close>

text \<open>\<open>fileName.match(/(J\d{10})/)\<close>: the leftmost \<open>J\<close> followed by ten digits.\<close>

fun extractJNumber :: "jstr \<Rightarrow> jstr" where
  "extractJNumber [] = []"
| "extractJNumber (c # cs) =
     (if c = 74 \<and> 10 \<le> length cs \<and> list_all isDigit (take 10 cs) then c # take 10 cs
      else extractJNumber cs)"

text \<open>
  \<open>fileName.match(/(\d+)unit/i)\<close>, group 1: at the leftmost position where a run of
  digits is followed by \<open>unit\<close> in any case, the whole run. (The run must be maximal,
  since \<open>u\<close> is not a digit; ignoring case without the unicode flag never maps a
  character outside ASCII to an ASCII letter.)
\<close>

fun matchUnit :: "jstr \<Rightarrow> jstr option" where
  "matchUnit [] = None"
| "matchUnit (c # cs) =
     (let run = takeWhile isDigit (c # cs);
          rest = dropWhile isDigit (c # cs)
      in if run \<noteq> [] \<and> toLowerCase (take 4 rest) = ascii ''unit'' then Some run
         else matchUnit cs)"

definition processFilename :: "jstr \<Rightarrow> jstr \<Rightarrow> jstr" where
  "processFilename name category =
     (let categoryPrefix =
            (if category = SEISAKU then [35069]
             else if category = KOUNYUU then [36092]
             else if category = DENKI then [38651]
             else []);
          unitNumberLength = 2
      in if category \<noteq> DENKI \<and> categoryPrefix \<noteq> [] then
           (case matchUnit name of
              Some unitMatch \<Rightarrow> categoryPrefix @ padStart unitNumberLength 48 unitMatch
            | None \<Rightarrow> categoryPrefix)
         else if category = DENKI then categoryPrefix
         else [])"

text \<open>
  \<open>collectUnitNumbersForCheck\<close>: the digits of the first cell of column 1, below the
  header, that is neither \<open>undefined\<close> nor the empty string; the empty string when there
  is none.
\<close>

fun firstUnitNumber :: "env \<Rightarrow> cell list list \<Rightarrow> jstr" where
  "firstUnitNumber e [] = []"
| "firstUnitNumber e (row # rows) =
     (if cellAt row 1 \<noteq> CUndef \<and> cellAt row 1 \<noteq> CStr []
      then digitsOnly (trim (toString e (cellAt row 1)))
      else firstUnitNumber e rows)"

definition collectUnitNumbersForCheck :: "env \<Rightarrow> cell list list \<Rightarrow> jstr \<Rightarrow> jstr \<times> jstr" where
  "collectUnitNumbersForCheck e data category = (firstUnitNumber e (drop 1 data), category)"

section \<open>One folder: \<open>processFiles\<close>\<close>

text \<open>
  A \<open>Set\<close> keeps its elements in insertion order, and \<open>Array.from(set)[0]\<close> reads the
  first one inserted: a set is modelled as the list of its elements in that order.
\<close>

definition setAdd :: "jstr \<Rightarrow> jstr list \<Rightarrow> jstr list" where
  "setAdd x xs = (if x \<in> set xs then xs else xs @ [x])"

text \<open>The object \<open>filenamePartsByCategory\<close>, with its three keys in their order.\<close>

record parts =
  partsKOUNYUU :: "jstr list"
  partsSEISAKU :: "jstr list"
  partsDENKI :: "jstr list"

text \<open>The object that \<open>processFiles\<close> returns; \<open>combineExcelSheets\<close> keeps variables of
  the same names.\<close>

record summary =
  combinedDataRows :: "cell list list"
  processedFiles :: nat
  jNumberSet :: "jstr list"
  unitNumberSet :: "jstr list"
  categories :: "jstr list"
  filenamePartsByCategory :: parts

text \<open>
  The variables of the loop of \<open>processFiles\<close>: those it returns, and the map
  \<open>processedFileKeys\<close>, from a key to the file registered for it (of which only the name
  is ever read) and its date.
\<close>

record loop_state = summary +
  processedFileKeys :: "jstr \<rightharpoonup> (jstr \<times> int option)"

definition validExtensions :: "jstr list" where
  "validExtensions = [ascii ''.xls'', ascii ''.xlsx'', ascii ''.xlsm'']"

definition hasValidExtension :: "jstr \<Rightarrow> bool" where
  "hasValidExtension name \<longleftrightarrow> list_ex (\<lambda>ext. endsWith (toLowerCase name) ext) validExtensions"

definition datePrefixLength :: nat where "datePrefixLength = 8"

text \<open>The \<open>switch\<close> that pushes a token onto the list of its category.\<close>

definition pushPart :: "jstr \<Rightarrow> jstr \<Rightarrow> parts \<Rightarrow> parts" where
  "pushPart category filenamePart p =
     (if category = KOUNYUU then p\<lparr>partsKOUNYUU := partsKOUNYUU p @ [filenamePart]\<rparr>
      else if category = SEISAKU then p\<lparr>partsSEISAKU := partsSEISAKU p @ [filenamePart]\<rparr>
      else if category = DENKI then p\<lparr>partsDENKI := partsDENKI p @ [filenamePart]\<rparr>
      else p)"

text \<open>\<open>row.includes(name)\<close>: some cell of the row is that very string.\<close>

definition rowIncludes :: "cell list \<Rightarrow> jstr \<Rightarrow> bool" where
  "rowIncludes row name \<longleftrightarrow> CStr name \<in> set row"

text \<open>
  The branch taken when the key is already registered (source lines 177 to 190):
  a strictly later date replaces the entry, filters the rows and appends the data rows
  of the file; otherwise \<open>continue\<close>, which also skips the final \<open>processedFiles++\<close>.
\<close>

definition keySeen ::
  "loop_state \<Rightarrow> jstr \<Rightarrow> jstr \<Rightarrow> int option \<Rightarrow> cell list list \<Rightarrow> jstr \<times> int option \<Rightarrow> loop_state" where
  "keySeen s fileKey name currentDate fileData existingFileInfo =
     (let existingName = fst existingFileInfo;
          existingDate = snd existingFileInfo
      in if jsGreater currentDate existingDate then
           s\<lparr>processedFileKeys := (processedFileKeys s)(fileKey \<mapsto> (name, currentDate)),
             combinedDataRows :=
               filter (\<lambda>row. \<not> rowIncludes row existingName) (combinedDataRows s) @ drop 1 fileData,
             processedFiles := processedFiles s + 1\<rparr>
         else s)"

text \<open>The branch taken for a key not yet registered (source lines 191 to 214).\<close>

definition keyNew ::
  "loop_state \<Rightarrow> jstr \<Rightarrow> jstr \<Rightarrow> int option \<Rightarrow> cell list list \<Rightarrow> jstr \<Rightarrow> loop_state" where
  "keyNew s fileKey name currentDate fileData category =
     (let filenamePart = processFilename name category;
          byCategory =
            (if filenamePart \<noteq> [] then pushPart category filenamePart (filenamePartsByCategory s)
             else filenamePartsByCategory s)
      in s\<lparr>processedFileKeys := (processedFileKeys s)(fileKey \<mapsto> (name, currentDate)),
           filenamePartsByCategory := byCategory,
           combinedDataRows :=
             (if processedFiles s = 0 then fileData
              else combinedDataRows s @ drop 1 fileData),
           processedFiles := processedFiles s + 1\<rparr>)"

text \<open>The key of a file (source lines 169 to 173): project number, category and unit
  number, joined by underscores.\<close>

definition makeFileKey :: "env \<Rightarrow> jstr \<Rightarrow> cell list list \<Rightarrow> jstr \<Rightarrow> jstr" where
  "makeFileKey e jNumber fileData category =
     (let (unitNumbers, categoryForCheck) = collectUnitNumbersForCheck e fileData category
      in jNumber @ [underscore] @ categoryForCheck @ [underscore] @ unitNumbers)"

text \<open>One turn of the \<open>while\<close> loop, for the file \<open>f\<close>.\<close>

definition fileStep :: "env \<Rightarrow> loop_state \<Rightarrow> document \<Rightarrow> loop_state" where
  "fileStep e s f =
     (let name = fileName f
      in if \<not> hasValidExtension name then s
         else
           let jNumber = extractJNumber name;
               s = (if jNumber \<noteq> [] then s\<lparr>jNumberSet := setAdd jNumber (jNumberSet s)\<rparr> else s)
           in (case processExcelFile e f of
                 None \<Rightarrow> s
               | Some (fileData, category) \<Rightarrow>
                   let s = (if category \<noteq> []
                            then s\<lparr>categories := setAdd category (categories s)\<rparr> else s);
                       fileKey = makeFileKey e jNumber fileData category;
                       currentDate = parseInt (take datePrefixLength name)
                   in (case processedFileKeys s fileKey of
                         Some existingFileInfo \<Rightarrow>
                           keySeen s fileKey name currentDate fileData existingFileInfo
                       | None \<Rightarrow> keyNew s fileKey name currentDate fileData category)))"

text \<open>
  The key and the date that this turn computes for a file: \<open>dedupKey\<close> is \<open>None\<close> for
  a file that yields no data.
\<close>

definition dedupKey :: "env \<Rightarrow> document \<Rightarrow> jstr option" where
  "dedupKey e f =
     (case processExcelFile e f of
        None \<Rightarrow> None
      | Some (fileData, category) \<Rightarrow>
          Some (makeFileKey e (extractJNumber (fileName f)) fileData category))"

definition revisionDate :: "document \<Rightarrow> int option" where
  "revisionDate f = parseInt (take datePrefixLength (fileName f))"

definition emptyParts :: parts where
  "emptyParts = \<lparr>partsKOUNYUU = [], partsSEISAKU = [], partsDENKI = []\<rparr>"

definition initialState :: loop_state where
  "initialState =
     \<lparr>combinedDataRows = [], processedFiles = 0, jNumberSet = [], unitNumberSet = [],
      categories = [], filenamePartsByCategory = emptyParts, processedFileKeys = Map.empty\<rparr>"

text \<open>
  The key of the final sort: \<open>parseInt(a.replace(/[^0-9]/g, "")) || 0\<close>. The comparator
  is the difference of two keys, and \<open>sort\<close> is stable, so the outcome is the stable
  sort by this key as long as the keys and their differences are exact, which they are
  up to \<open>MAX_SAFE_INTEGER\<close>. Beyond it the program sorts by rounded numbers, which
  \<open>tokenKey\<close> does not describe: \<open>exactKeys\<close> is the condition under which \<open>sortParts\<close>
  is the sort of the program.
\<close>

definition tokenKey :: "jstr \<Rightarrow> int" where
  "tokenKey a = (case parseInt (digitsOnly a) of None \<Rightarrow> 0 | Some n \<Rightarrow> n)"

definition exactKeys :: "parts \<Rightarrow> bool" where
  "exactKeys p \<longleftrightarrow>
     list_all (\<lambda>t. tokenKey t \<le> MAX_SAFE_INTEGER) (partsKOUNYUU p @ partsSEISAKU p @ partsDENKI p)"

definition sortParts :: "parts \<Rightarrow> parts" where
  "sortParts p =
     \<lparr>partsKOUNYUU = sort_key tokenKey (partsKOUNYUU p),
      partsSEISAKU = sort_key tokenKey (partsSEISAKU p),
      partsDENKI = sort_key tokenKey (partsDENKI p)\<rparr>"

definition processFiles :: "env \<Rightarrow> document list \<Rightarrow> summary" where
  "processFiles e fileIterator =
     (let s = foldl (fileStep e) initialState fileIterator
      in \<lparr>combinedDataRows = combinedDataRows s,
          processedFiles = processedFiles s,
          jNumberSet = jNumberSet s,
          unitNumberSet = unitNumberSet s,
          categories = categories s,
          filenamePartsByCategory = sortParts (filenamePartsByCategory s)\<rparr>)"

section \<open>The output: \<open>createSpreadsheet\<close>\<close>

text \<open>
  The name of the new spreadsheet (source lines 496, 497 and 528 to 552), from the set
  of project numbers, the tokens of each category and the time stamp of
  \<open>getCurrentDateTime\<close>. \<open>Array.from(jNumberSet)[0] || ""\<close> is the first element, or the
  empty string when there is none (or when it is empty).
\<close>

definition newFileName :: "jstr list \<Rightarrow> parts \<Rightarrow> jstr \<Rightarrow> jstr" where
  "newFileName jNumbers byCategory dateTime =
     (let jNumber = (case jNumbers of [] \<Rightarrow> [] | j # _ \<Rightarrow> j);
          filenameParts = [];
          filenameParts =
            (if length (partsKOUNYUU byCategory) > 0
             then filenameParts @ [36092 # joinWith [45] (map (drop 1) (partsKOUNYUU byCategory))]
             else filenameParts);
          filenameParts =
            (if length (partsSEISAKU byCategory) > 0
             then filenameParts @ [35069 # joinWith [45] (map (drop 1) (partsSEISAKU byCategory))]
             else filenameParts);
          filenameParts =
            (if length (partsDENKI byCategory) > 0 then filenameParts @ [[38651]]
             else filenameParts);
          combinedFilenameBase = joinWith [underscore] filenameParts;
          us = (if combinedFilenameBase \<noteq> [] then [underscore] else [])
      in jNumber @ us @ combinedFilenameBase @ [underscore] @ dateTime)"

text \<open>The rows written to the sheet: the configured header, then every row after the
  first with two empty cells and its number in front.\<close>

definition finalData :: "env \<Rightarrow> cell list list \<Rightarrow> cell list list" where
  "finalData e rows =
     (let headerRow = map (COLUMN_NAMES e) [''D'', ''E'', ''F'', ''G'', ''H'', ''I'', ''J'', ''K'', ''L'', ''M''];
          dataRows = drop 1 rows
      in (map (COLUMN_NAMES e) [''A'', ''B'', ''C''] @ headerRow)
         # map (\<lambda>(index, row). [CStr [], CStr [], CNum (real index + 1)] @ row)
               (enumerate 0 dataRows))"

section \<open>The whole run: \<open>combineExcelSheets\<close>\<close>

text \<open>
  An exception: \<open>new Error(message)\<close> thrown by the program, or one thrown by the runtime
  or a platform service, of which only the text of \<open>toString()\<close> is ever read.
\<close>

datatype exn = Error jstr | Thrown jstr

fun exnToString :: "exn \<Rightarrow> jstr" where
  "exnToString (Error message) = ascii ''Error: '' @ message"
| "exnToString (Thrown text) = text"

record folder =
  folderName :: jstr
  folderFiles :: "document list"

text \<open>
  What the run receives from outside: the outcome of \<open>selectFolder()\<close> (a folder id or
  \<open>null\<close>), the sub-folders of the folder of an id as \<open>DriveApp\<close> gives them, the time
  stamp, and \<open>publish\<close>, which stands for all the platform calls from \<open>copySpreadsheet\<close>
  to \<open>getUrl()\<close> (given the name and the rows to write, they yield the URL or raise).
  \<open>nullAccess\<close> is the text of the runtime's error for a method call on \<open>null\<close>.
\<close>

record world =
  selectFolder :: "exn + jstr option"
  getFolderById :: "jstr \<Rightarrow> exn + folder list option"
  getCurrentDateTime :: jstr
  publish :: "jstr \<Rightarrow> cell list list \<Rightarrow> exn + jstr"
  nullAccess :: jstr

text \<open>The messages of the five \<open>throw\<close> statements, in the order of the source.\<close>

definition MSG_NOT_SELECTED :: jstr where
  "MSG_NOT_SELECTED = [12501, 12457, 12523, 12480, 12364, 36984, 25246, 12373, 12428, 12414,
     12379, 12435, 12391, 12375, 12383]"

definition MSG_NOT_FOUND :: jstr where
  "MSG_NOT_FOUND = [25351, 23450, 12373, 12428, 12383, 12501, 12457, 12523, 12480, 12364, 35211,
     12388, 12363, 12426, 12414, 12379, 12435]"

definition MSG_NO_FOLDERS :: jstr where
  "MSG_NO_FOLDERS = [37096, 21697, 12522, 12473, 12488, 12434, 21547, 12416, 12501, 12457, 12523,
     12480, 12364, 35211, 12388, 12363, 12426, 12414, 12379, 12435, 12391, 12375, 12383]"

definition MSG_NO_FILES :: jstr where
  "MSG_NO_FILES = [20966, 29702, 21487, 33021, 12394, 12501, 12449, 12452, 12523, 12364, 35211,
     12388, 12363, 12426, 12414, 12379, 12435, 12391, 12375, 12383]"

definition MSG_NO_DATA :: jstr where
  "MSG_NO_DATA = [26377, 21177, 12394, 12487, 12540, 12479, 12364, 35211, 12388, 12363, 12426,
     12414, 12379, 12435, 12391, 12375, 12383]"

text \<open>The marker of a parts-list folder: U+90E8 U+54C1 U+30EA U+30B9 U+30C8.\<close>

definition BUHIN_LIST :: jstr where
  "BUHIN_LIST = [37096, 21697, 12522, 12473, 12488]"

definition isTargetFolder :: "folder \<Rightarrow> bool" where
  "isTargetFolder d \<longleftrightarrow>
     \<not> startsWith (folderName d) (ascii ''@'') \<and> includesStr (folderName d) BUHIN_LIST"

definition mergeParts :: "parts \<Rightarrow> parts \<Rightarrow> parts" where
  "mergeParts p q =
     \<lparr>partsKOUNYUU = partsKOUNYUU p @ partsKOUNYUU q,
      partsSEISAKU = partsSEISAKU p @ partsSEISAKU q,
      partsDENKI = partsDENKI p @ partsDENKI q\<rparr>"

text \<open>The body of \<open>targetFolders.forEach\<close> (source lines 83 to 98).\<close>

definition mergeFolder :: "env \<Rightarrow> summary \<Rightarrow> folder \<Rightarrow> summary" where
  "mergeFolder e acc targetFolder =
     (let result = processFiles e (folderFiles targetFolder)
      in \<lparr>combinedDataRows = combinedDataRows acc @ combinedDataRows result,
          processedFiles = processedFiles acc + processedFiles result,
          jNumberSet = foldl (\<lambda>xs x. setAdd x xs) (jNumberSet acc) (jNumberSet result),
          unitNumberSet = foldl (\<lambda>xs x. setAdd x xs) (unitNumberSet acc) (unitNumberSet result),
          categories = foldl (\<lambda>xs x. setAdd x xs) (categories acc) (categories result),
          filenamePartsByCategory =
            mergeParts (filenamePartsByCategory acc) (filenamePartsByCategory result)\<rparr>)"

definition emptySummary :: summary where
  "emptySummary =
     \<lparr>combinedDataRows = [], processedFiles = 0, jNumberSet = [], unitNumberSet = [],
      categories = [], filenamePartsByCategory = emptyParts\<rparr>"

definition mergeFolders :: "env \<Rightarrow> folder list \<Rightarrow> summary" where
  "mergeFolders e targetFolders = foldl (mergeFolder e) emptySummary targetFolders"

text \<open>\<open>createSpreadsheet\<close> returns \<open>null\<close> for no rows; otherwise it names and fills the
  copy of the template.\<close>

definition createSpreadsheet :: "env \<Rightarrow> world \<Rightarrow> summary \<Rightarrow> exn + jstr option" where
  "createSpreadsheet e w m =
     (if length (combinedDataRows m) = 0 then Inr None
      else
        (case publish w
                (newFileName (jNumberSet m) (filenamePartsByCategory m) (getCurrentDateTime w))
                (finalData e (combinedDataRows m)) of
           Inl x \<Rightarrow> Inl x
         | Inr url \<Rightarrow> Inr (Some url)))"

datatype run_result =
  Success (url: jstr) (resultProcessedFiles: nat) (totalRows: nat)
| Failure (error: jstr)

text \<open>The body of the \<open>try\<close> block: \<open>Inl\<close> is an exception leaving the block. The
  test \<open>!folderId\<close> holds for \<open>null\<close> and for the empty string.\<close>

definition tryBlock :: "env \<Rightarrow> world \<Rightarrow> exn + run_result" where
  "tryBlock e w =
     (case selectFolder w of
        Inl x \<Rightarrow> Inl x
      | Inr None \<Rightarrow> Inl (Error MSG_NOT_SELECTED)
      | Inr (Some folderId) \<Rightarrow>
          if folderId = [] then Inl (Error MSG_NOT_SELECTED)
          else
            (case getFolderById w folderId of
               Inl x \<Rightarrow> Inl x
             | Inr None \<Rightarrow> Inl (Error MSG_NOT_FOUND)
             | Inr (Some subFolders) \<Rightarrow>
                 (let targetFolders = filter isTargetFolder subFolders
                  in if length targetFolders = 0 then Inl (Error MSG_NO_FOLDERS)
                     else
                       let m = mergeFolders e targetFolders
                       in if processedFiles m = 0 then Inl (Error MSG_NO_FILES)
                          else if length (combinedDataRows m) = 0 then Inl (Error MSG_NO_DATA)
                          else
                            (case createSpreadsheet e w m of
                               Inl x \<Rightarrow> Inl x
                             | Inr None \<Rightarrow> Inl (Thrown (nullAccess w))
                             | Inr (Some u) \<Rightarrow>
                                 Inr (Success u (processedFiles m)
                                        (length (combinedDataRows m)))))))"

text \<open>\<open>combineExcelSheets\<close>: the \<open>catch\<close> turns every exception into a result.\<close>

definition combineExcelSheets :: "env \<Rightarrow> world \<Rightarrow> run_result" where
  "combineExcelSheets e w =
     (case tryBlock e w of
        Inr r \<Rightarrow> r
      | Inl x \<Rightarrow> Failure (exnToString x))"

section \<open>Notions used to state the properties\<close>

text \<open>Inserting the elements of a list into a set, one after the other: what
  \<open>result.jNumberSet.forEach((jNumber) => jNumberSet.add(jNumber))\<close> does.\<close>

definition insertAll :: "jstr list \<Rightarrow> jstr list \<Rightarrow> jstr list" where
  "insertAll acc ys = foldl (\<lambda>xs x. setAdd x xs) acc ys"

text \<open>The project numbers that the files of a list carry in their names, in the order
  of the files: only files with a valid extension are looked at, and only a number
  that is found is kept.\<close>

definition jNumbersOf :: "document list \<Rightarrow> jstr list" where
  "jNumbersOf fs =
     filter (\<lambda>j. j \<noteq> []) (map (\<lambda>f. extractJNumber (fileName f))
       (filter (\<lambda>f. hasValidExtension (fileName f)) fs))"

text \<open>The categories of the files of a list that yield data, in the order of the files.\<close>

definition categoriesOf :: "env \<Rightarrow> document list \<Rightarrow> jstr list" where
  "categoriesOf e fs =
     filter (\<lambda>c. c \<noteq> [])
       (map (\<lambda>f. case processExcelFile e f of None \<Rightarrow> [] | Some (fileData, category) \<Rightarrow> category)
          (filter (\<lambda>f. hasValidExtension (fileName f)) fs))"

text \<open>
  The name of the output as the specification words it: the project identifier, then,
  if some category has a token, an underscore and the segments of the categories joined
  by underscores, then an underscore and the time stamp. The segment of a category with
  tokens is its letter followed by its tokens, each without its first character, joined
  by hyphens; the electrical category contributes its letter alone.
\<close>

definition specCategoryTokens :: "parts \<Rightarrow> jstr list" where
  "specCategoryTokens p =
     (if partsKOUNYUU p = [] then []
      else [[36092] @ joinWith [45] (map (drop 1) (partsKOUNYUU p))])
     @ (if partsSEISAKU p = [] then []
        else [[35069] @ joinWith [45] (map (drop 1) (partsSEISAKU p))])
     @ (if partsDENKI p = [] then [] else [[38651]])"

definition specName :: "jstr \<Rightarrow> parts \<Rightarrow> jstr \<Rightarrow> jstr" where
  "specName projectId p timestamp =
     projectId
     @ (if partsKOUNYUU p = [] \<and> partsSEISAKU p = [] \<and> partsDENKI p = [] then []
        else [underscore] @ joinWith [underscore] (specCategoryTokens p))
     @ [underscore] @ timestamp"

section \<open>Sample inputs\<close>

text \<open>A configuration whose column titles are the column letters, and a sheet layout of
  ten columns: a running number, the unit, the part number, the stock status, and six
  more.\<close>

definition sampleEnv :: env where
  "sampleEnv =
     \<lparr>COLUMN_NAMES = (\<lambda>k. CStr (ascii k)),
      formatDate = (\<lambda>d. ascii ''2024/01/01''),
      dateToString = (\<lambda>d. ascii ''Mon Jan 01 2024''),
      numberToString = (\<lambda>x. ascii ''1.5'')\<rparr>"

definition sampleHeader :: "cell list" where
  "sampleHeader =
     map (\<lambda>k. CStr (ascii k))
       [''No'', ''Unit'', ''Part'', ''Stock'', ''c4'', ''c5'', ''c6'', ''c7'', ''c8'', ''c9'']"

definition sampleRow :: "real \<Rightarrow> jstr \<Rightarrow> cell list" where
  "sampleRow n stock =
     [CNum n, CNum 1, CNum (100 + n), CStr stock, CStr (ascii ''a''), CStr (ascii ''b''),
      CStr (ascii ''c''), CStr (ascii ''d''), CDate 5, CStr (ascii ''f'')]"

text \<open>A sheet whose header carries the exclusion marker in the stock column.\<close>

definition markedHeader :: "cell list" where
  "markedHeader = [CStr (ascii ''No''), CStr (ascii ''Unit''), CStr (ascii ''Part''),
     CStr excludeStockStatus]"

definition markedDoc :: document where
  "markedDoc =
     \<lparr>fileName = ascii ''20240105_J0000000001_'' @ SEISAKU @ ascii ''_1unit.xlsx'',
      sheetValues = Some [markedHeader, sampleRow 1 (ascii ''ok''), sampleRow 2 excludeStockStatus]\<rparr>"

text \<open>
  The scenario of two revisions of one purchased list of unit 1: the file dated 20240105
  has three valid rows and one row without stock, the file dated 20240110 has two rows.
  \<open>normalHeader\<close> and \<open>normalRow\<close> are what the header and a valid row become.
\<close>

definition scenarioOld :: document where
  "scenarioOld =
     \<lparr>fileName = ascii ''20240105_J0000000001_'' @ KOUNYUU @ ascii ''_1unit.xlsx'',
      sheetValues = Some [sampleHeader, sampleRow 1 (ascii ''ok''), sampleRow 2 excludeStockStatus,
        sampleRow 3 (ascii ''ok''), sampleRow 4 (ascii ''ok'')]\<rparr>"

definition scenarioNew :: document where
  "scenarioNew =
     \<lparr>fileName = ascii ''20240110_J0000000001_'' @ KOUNYUU @ ascii ''_1unit.xlsx'',
      sheetValues = Some [sampleHeader, sampleRow 5 (ascii ''ok''), sampleRow 6 (ascii ''ok'')]\<rparr>"

definition scenarioKey :: jstr where
  "scenarioKey = ascii ''J0000000001_'' @ KOUNYUU @ ascii ''_1''"

definition normalHeader :: "cell list" where
  "normalHeader =
     map (\<lambda>k. CStr (ascii k))
       [''D'', ''Unit'', ''Part'', ''Stock'', ''c4'', ''c5'', ''c6'', ''c7'', ''c8'', ''c9'']"

definition normalRow :: "real \<Rightarrow> jstr \<Rightarrow> cell list" where
  "normalRow n stock =
     [CStr KOUNYUU, CNum 1, CNum (100 + n), CStr stock, CStr (ascii ''a''), CStr (ascii ''b''),
      CStr (ascii ''c''), CStr (ascii ''d''), CStr [], CStr (ascii ''f'')]"

text \<open>The state of the loop after the older file alone.\<close>

definition afterOld :: loop_state where
  "afterOld = fileStep sampleEnv initialState scenarioOld"

text \<open>The two files in a folder each, and a run over these two folders.\<close>

definition folderOld :: folder where
  "folderOld = \<lparr>folderName = BUHIN_LIST @ ascii ''_A'', folderFiles = [scenarioOld]\<rparr>"

definition folderNew :: folder where
  "folderNew = \<lparr>folderName = BUHIN_LIST @ ascii ''_B'', folderFiles = [scenarioNew]\<rparr>"

definition scenarioWorld :: world where
  "scenarioWorld =
     \<lparr>selectFolder = Inr (Some (ascii ''root'')),
      getFolderById = (\<lambda>folderId. Inr (Some [folderOld, folderNew])),
      getCurrentDateTime = ascii ''20240101-0000'',
      publish = (\<lambda>name rows. Inr (ascii ''https://sheets/'' @ name)),
      nullAccess = ascii ''TypeError''\<rparr>"

text \<open>A purchased list of unit 3, in a folder of its own.\<close>

definition unit3Doc :: document where
  "unit3Doc =
     \<lparr>fileName = ascii ''20240105_J0000000001_'' @ KOUNYUU @ ascii ''_3unit.xlsx'',
      sheetValues = Some [sampleHeader, (sampleRow 7 (ascii ''ok''))[1 := CNum 3]]\<rparr>"

definition folderUnit3 :: folder where
  "folderUnit3 = \<lparr>folderName = BUHIN_LIST @ ascii ''_C'', folderFiles = [unit3Doc]\<rparr>"

text \<open>A purchased list of unit 10, and a folder with the lists of the units 3, 1 and 10
  in this order.\<close>

definition unit10Doc :: document where
  "unit10Doc =
     \<lparr>fileName = ascii ''20240105_J0000000001_'' @ KOUNYUU @ ascii ''_10unit.xlsx'',
      sheetValues = Some [sampleHeader, (sampleRow 8 (ascii ''ok''))[1 := CNum 10]]\<rparr>"

definition folderThreeUnits :: folder where
  "folderThreeUnits =
     \<lparr>folderName = BUHIN_LIST @ ascii ''_D'', folderFiles = [unit3Doc, scenarioNew, unit10Doc]\<rparr>"

text \<open>A file whose name carries neither a project number nor a category.\<close>

definition plainDoc :: document where
  "plainDoc =
     \<lparr>fileName = ascii ''20240105_list.xlsx'',
      sheetValues = Some [sampleHeader, sampleRow 1 (ascii ''ok'')]\<rparr>"

definition folderPlain :: folder where
  "folderPlain = \<lparr>folderName = BUHIN_LIST, folderFiles = [plainDoc]\<rparr>"

text \<open>A file of another project that yields no data, after the older file of the
  scenario in one folder.\<close>

definition otherProject :: document where
  "otherProject =
     \<lparr>fileName = ascii ''20240106_J0000000002_'' @ SEISAKU @ ascii ''_2unit.xlsx'',
      sheetValues = None\<rparr>"

definition folderTwoProjects :: folder where
  "folderTwoProjects =
     \<lparr>folderName = BUHIN_LIST, folderFiles = [scenarioOld, otherProject]\<rparr>"

text \<open>
  Runs that fail: the only folder is marked with \<open>@\<close>; the only file is not a
  spreadsheet; the platform raises while the output is written; no folder is chosen.
\<close>

definition worldWith :: "folder list \<Rightarrow> world" where
  "worldWith subFolders = scenarioWorld\<lparr>getFolderById := (\<lambda>folderId. Inr (Some subFolders))\<rparr>"

definition folderMarked :: folder where
  "folderMarked = \<lparr>folderName = ascii ''@'' @ BUHIN_LIST, folderFiles = [scenarioOld]\<rparr>"

definition folderNotes :: folder where
  "folderNotes =
     \<lparr>folderName = BUHIN_LIST,
      folderFiles = [\<lparr>fileName = ascii ''notes.txt'', sheetValues = None\<rparr>]\<rparr>"

definition worldPublishFails :: world where
  "worldPublishFails = scenarioWorld\<lparr>publish := (\<lambda>name rows. Inl (Thrown (ascii ''Exception: quota'')))\<rparr>"

definition worldCancelled :: world where
  "worldCancelled = scenarioWorld\<lparr>selectFolder := Inr None\<rparr>"

text \<open>
  Two sheets that hold a header row only, the older one with its own file name in a
  header cell: the later file removes the only row there is and adds none.
\<close>

definition titleOld :: document where
  "titleOld =
     \<lparr>fileName = fileName scenarioOld,
      sheetValues = Some [[CStr (ascii ''No''), CStr (fileName scenarioOld)]]\<rparr>"

definition titleNew :: document where
  "titleNew =
     \<lparr>fileName = fileName scenarioNew,
      sheetValues = Some [[CStr (ascii ''No''), CStr (ascii ''Unit'')]]\<rparr>"

definition folderTitles :: folder where
  "folderTitles = \<lparr>folderName = BUHIN_LIST, folderFiles = [titleOld, titleNew]\<rparr>"

section \<open>Reading and writing cells\<close>

lemma cellAt_setCell_other: "j < i \<Longrightarrow> cellAt (setCell row i v) j = cellAt row j"
  by (auto simp: cellAt_def setCell_def nth_append)

lemma cellAt_formatRow: "j < DATE_FORMAT_COLUMN_M \<Longrightarrow> cellAt (formatRow e row) j = cellAt row j"
  by (auto simp: formatRow_def Let_def DATE_FORMAT_COLUMN_M_def DATE_FORMAT_COLUMN_N_def
      cellAt_setCell_other split: cell.splits)

section \<open>The stock filter\<close>

text \<open>The value of \<open>processExcelFile\<close> on a sheet with a header row.\<close>

lemma processExcelFile_rows:
  assumes "sheetValues f = Some (header # rows)"
  shows "processExcelFile e f =
    Some ((COLUMN_NAMES e ''D'' # pruneRow header) #
          map (\<lambda>row. formatRow e (CStr (determineCategory (fileName f)) #
                 (if determineCategory (fileName f) = KOUNYUU \<or> determineCategory (fileName f) = DENKI
                  then setCell row DATE_FORMAT_COLUMN_L (CStr []) else row)))
              (filter keepRow (map pruneRow rows)),
          determineCategory (fileName f))"
  using assms by (simp add: processExcelFile_def Let_def)

text \<open>
  Claim C6. For a sheet with a header row, the normalised document keeps the header
  (under the category title) whatever its cells are, has one data row for each data
  row of the sheet whose stock status (column 2 after pruning) is not the exclusion
  marker, and none of its data rows carries the marker in that column (column 3 once
  the category is in front). The data rows are those rows of the sheet, in their order:
  their first three columns are unchanged.
\<close>

theorem stock_filter:
  assumes "sheetValues f = Some (header # rows)"
  shows "\<exists>fileData category. processExcelFile e f = Some (fileData, category)
     \<and> hd fileData = COLUMN_NAMES e ''D'' # pruneRow header
     \<and> length fileData =
         1 + length (filter (\<lambda>row. cellAt (pruneRow row) 2 \<noteq> CStr excludeStockStatus) rows)
     \<and> (\<forall>row \<in> set (tl fileData). cellAt row 3 \<noteq> CStr excludeStockStatus)
     \<and> map (\<lambda>row. (cellAt row 1, cellAt row 2, cellAt row 3)) (tl fileData)
         = map (\<lambda>row. (cellAt row 0, cellAt row 1, cellAt row 2))
             (filter (\<lambda>row. cellAt row 2 \<noteq> CStr excludeStockStatus) (map pruneRow rows))"
proof -
  let ?cat = "determineCategory (fileName f)"
  let ?out = "\<lambda>row. formatRow e (CStr ?cat # (if ?cat = KOUNYUU \<or> ?cat = DENKI
                  then setCell row DATE_FORMAT_COLUMN_L (CStr []) else row))"
  have len: "length (filter keepRow (map pruneRow rows))
      = length (filter (\<lambda>row. cellAt (pruneRow row) 2 \<noteq> CStr excludeStockStatus) rows)"
    by (simp add: filter_map keepRow_def STOCK_STATUS_COLUMN_INDEX_def comp_def)
  have shift: "cellAt (c # r) (Suc 0) = cellAt r 0" "cellAt (c # r) 2 = cellAt r 1"
    "cellAt (c # r) 3 = cellAt r 2" for c r
    by (simp_all add: cellAt_def)
  have same: "cellAt (?out row) 1 = cellAt row 0" "cellAt (?out row) 2 = cellAt row 1"
    "cellAt (?out row) 3 = cellAt row 2" for row
    by (simp_all add: cellAt_formatRow DATE_FORMAT_COLUMN_M_def shift cellAt_setCell_other
        DATE_FORMAT_COLUMN_L_def)
  have keep: "cellAt (?out row) 3 \<noteq> CStr excludeStockStatus" if "keepRow row" for row
    using that unfolding same by (simp add: keepRow_def STOCK_STATUS_COLUMN_INDEX_def)
  have kept: "filter keepRow (map pruneRow rows)
      = filter (\<lambda>row. cellAt row 2 \<noteq> CStr excludeStockStatus) (map pruneRow rows)"
    by (rule filter_cong [OF refl]) (simp add: keepRow_def STOCK_STATUS_COLUMN_INDEX_def)
  have cols: "map (\<lambda>row. (cellAt row 1, cellAt row 2, cellAt row 3))
        (map ?out (filter keepRow (map pruneRow rows)))
      = map (\<lambda>row. (cellAt row 0, cellAt row 1, cellAt row 2))
          (filter (\<lambda>row. cellAt row 2 \<noteq> CStr excludeStockStatus) (map pruneRow rows))"
    unfolding kept map_map comp_def same ..
  show ?thesis
    unfolding processExcelFile_rows [OF assms]
    using len keep cols by auto
qed

theorem stock_filter_witness:
  "sheetValues markedDoc = Some (markedHeader # [sampleRow 1 (ascii ''ok''), sampleRow 2 excludeStockStatus])
   \<and> (\<exists>fileData category. processExcelFile sampleEnv markedDoc = Some (fileData, category)
     \<and> hd fileData = [CStr (ascii ''D''), CStr (ascii ''Unit''), CStr (ascii ''Part''),
          CStr excludeStockStatus]
     \<and> length fileData = 2
     \<and> (\<forall>row \<in> set (tl fileData). cellAt row 3 \<noteq> CStr excludeStockStatus))"
proof -
  have h: "sheetValues markedDoc
      = Some (markedHeader # [sampleRow 1 (ascii ''ok''), sampleRow 2 excludeStockStatus])"
    by (simp add: markedDoc_def)
  show ?thesis
    using h stock_filter [OF h, of sampleEnv]
    by (simp add: sampleEnv_def markedHeader_def sampleRow_def pruneRow_def cellAt_def
        REQUIRED_COLUMN_COUNT_def REMOVE_COLUMN_COUNT_def excludeStockStatus_def ascii_def
        split: if_splits)
qed

section \<open>Sets and dates\<close>

lemma setAdd_idem: "setAdd x (setAdd x xs) = setAdd x xs"
  by (simp add: setAdd_def)

lemma set_setAdd: "set (setAdd x xs) = insert x (set xs)"
  by (auto simp: setAdd_def)

lemma jsGreater_irrefl: "\<not> jsGreater d d"
  by (cases d) auto

section \<open>A turn of the loop\<close>

text \<open>A turn of the loop for a file that yields data: the two sets are extended, then
  the branch for the key is taken.\<close>

lemma fileStep_data:
  assumes "hasValidExtension (fileName f)" and "processExcelFile e f = Some (fileData, category)"
    and "dedupKey e f = Some k"
  shows "fileStep e s f =
    (let s' = s\<lparr>jNumberSet := (if extractJNumber (fileName f) \<noteq> []
                                then setAdd (extractJNumber (fileName f)) (jNumberSet s)
                                else jNumberSet s),
                 categories := (if category \<noteq> [] then setAdd category (categories s)
                                else categories s)\<rparr>
     in case processedFileKeys s k of
          Some info \<Rightarrow> keySeen s' k (fileName f) (revisionDate f) fileData info
        | None \<Rightarrow> keyNew s' k (fileName f) (revisionDate f) fileData category)"
  using assms
  by (auto simp: fileStep_def dedupKey_def revisionDate_def Let_def split: option.splits)

lemma fileStep_stale:
  assumes "hasValidExtension (fileName f)" and "dedupKey e f = Some k"
    and "processedFileKeys s k = Some (n, d)" and "\<not> jsGreater (revisionDate f) d"
  shows "combinedDataRows (fileStep e s f) = combinedDataRows s"
    and "processedFileKeys (fileStep e s f) = processedFileKeys s"
    and "filenamePartsByCategory (fileStep e s f) = filenamePartsByCategory s"
    and "processedFiles (fileStep e s f) = processedFiles s"
proof -
  from assms(2) obtain fileData category where
    p: "processExcelFile e f = Some (fileData, category)"
    by (auto simp: dedupKey_def split: option.splits)
  note step = fileStep_data [OF assms(1) p assms(2), of s]
  show "combinedDataRows (fileStep e s f) = combinedDataRows s"
    using assms(3,4) by (simp add: step keySeen_def Let_def)
  show "processedFileKeys (fileStep e s f) = processedFileKeys s"
    using assms(3,4) by (simp add: step keySeen_def Let_def)
  show "filenamePartsByCategory (fileStep e s f) = filenamePartsByCategory s"
    using assms(3,4) by (simp add: step keySeen_def Let_def)
  show "processedFiles (fileStep e s f) = processedFiles s"
    using assms(3,4) by (simp add: step keySeen_def Let_def)
qed

lemma fileStep_supersede:
  assumes "hasValidExtension (fileName f)" and "processExcelFile e f = Some (fileData, category)"
    and "dedupKey e f = Some k"
    and "processedFileKeys s k = Some (n, d)" and "jsGreater (revisionDate f) d"
  shows "combinedDataRows (fileStep e s f) =
           filter (\<lambda>row. \<not> rowIncludes row n) (combinedDataRows s) @ drop 1 fileData"
    and "processedFileKeys (fileStep e s f) = (processedFileKeys s)(k \<mapsto> (fileName f, revisionDate f))"
    and "filenamePartsByCategory (fileStep e s f) = filenamePartsByCategory s"
    and "processedFiles (fileStep e s f) = processedFiles s + 1"
proof -
  note step = fileStep_data [OF assms(1,2,3), of s]
  show "combinedDataRows (fileStep e s f) =
           filter (\<lambda>row. \<not> rowIncludes row n) (combinedDataRows s) @ drop 1 fileData"
    using assms(4,5) by (simp add: step keySeen_def Let_def)
  show "processedFileKeys (fileStep e s f) = (processedFileKeys s)(k \<mapsto> (fileName f, revisionDate f))"
    using assms(4,5) by (simp add: step keySeen_def Let_def)
  show "filenamePartsByCategory (fileStep e s f) = filenamePartsByCategory s"
    using assms(4,5) by (simp add: step keySeen_def Let_def)
  show "processedFiles (fileStep e s f) = processedFiles s + 1"
    using assms(4,5) by (simp add: step keySeen_def Let_def)
qed

lemma fileStep_new:
  assumes "hasValidExtension (fileName f)" and "processExcelFile e f = Some (fileData, category)"
    and "dedupKey e f = Some k" and "processedFileKeys s k = None"
  shows "combinedDataRows (fileStep e s f) =
           (if processedFiles s = 0 then fileData else combinedDataRows s @ drop 1 fileData)"
    and "processedFileKeys (fileStep e s f) = (processedFileKeys s)(k \<mapsto> (fileName f, revisionDate f))"
    and "filenamePartsByCategory (fileStep e s f) =
           (if processFilename (fileName f) category \<noteq> []
            then pushPart category (processFilename (fileName f) category) (filenamePartsByCategory s)
            else filenamePartsByCategory s)"
    and "processedFiles (fileStep e s f) = processedFiles s + 1"
proof -
  note step = fileStep_data [OF assms(1,2,3), of s]
  show "combinedDataRows (fileStep e s f) =
           (if processedFiles s = 0 then fileData else combinedDataRows s @ drop 1 fileData)"
    using assms(4) by (simp add: step keyNew_def Let_def)
  show "processedFileKeys (fileStep e s f) = (processedFileKeys s)(k \<mapsto> (fileName f, revisionDate f))"
    using assms(4) by (simp add: step keyNew_def Let_def)
  show "filenamePartsByCategory (fileStep e s f) =
           (if processFilename (fileName f) category \<noteq> []
            then pushPart category (processFilename (fileName f) category) (filenamePartsByCategory s)
            else filenamePartsByCategory s)"
    using assms(4) by (simp add: step keyNew_def Let_def)
  show "processedFiles (fileStep e s f) = processedFiles s + 1"
    using assms(4) by (simp add: step keyNew_def Let_def)
qed

lemma fileStep_idem: "fileStep e (fileStep e s f) f = fileStep e s f"
proof (cases "hasValidExtension (fileName f)")
  case False
  then show ?thesis by (simp add: fileStep_def)
next
  case valid: True
  show ?thesis
  proof (cases "processExcelFile e f")
    case None
    with valid show ?thesis
      by (simp add: fileStep_def Let_def setAdd_idem)
  next
    case (Some r)
    obtain fileData category where r: "r = (fileData, category)" by (cases r)
    have p: "processExcelFile e f = Some (fileData, category)" using Some r by simp
    obtain k where k: "dedupKey e f = Some k" using p by (simp add: dedupKey_def)
    note step = fileStep_data [OF valid p k]
    show ?thesis
    proof (cases "processedFileKeys s k")
      case None
      then show ?thesis
        by (simp add: step keyNew_def keySeen_def Let_def jsGreater_irrefl setAdd_idem)
    next
      case (Some info)
      then show ?thesis
        by (cases "jsGreater (revisionDate f) (snd info)")
          (simp_all add: step keyNew_def keySeen_def Let_def jsGreater_irrefl setAdd_idem)
    qed
  qed
qed

text \<open>Dates only grow in the registry: once a key holds a date that a file does not
  exceed, no later turn of the loop makes the file newer than the entry.\<close>

lemma jsGreater_trans_not:
  "\<not> jsGreater c d \<Longrightarrow> jsGreater d' d \<Longrightarrow> \<not> jsGreater c d'"
  by (cases c; cases d; cases d') auto

lemma fileStep_keeps_other_key:
  assumes "dedupKey e g \<noteq> Some k"
  shows "processedFileKeys (fileStep e s g) k = processedFileKeys s k"
proof (cases "hasValidExtension (fileName g)")
  case False
  then show ?thesis by (simp add: fileStep_def)
next
  case valid: True
  show ?thesis
  proof (cases "processExcelFile e g")
    case None
    with valid show ?thesis by (simp add: fileStep_def Let_def)
  next
    case (Some r)
    obtain fileData category where p: "processExcelFile e g = Some (fileData, category)"
      using Some by (cases r) simp
    obtain k' where k': "dedupKey e g = Some k'" using p by (simp add: dedupKey_def)
    with assms have ne: "k' \<noteq> k" by simp
    show ?thesis
      using ne
      by (simp add: fileStep_data [OF valid p k'] keySeen_def keyNew_def Let_def
          split: option.splits)
  qed
qed

lemma fileStep_registered:
  assumes "processedFileKeys s k = Some (n, d)" and "\<not> jsGreater c d"
  shows "\<exists>n' d'. processedFileKeys (fileStep e s g) k = Some (n', d') \<and> \<not> jsGreater c d'"
proof (cases "dedupKey e g = Some k \<and> hasValidExtension (fileName g)")
  case False
  have "processedFileKeys (fileStep e s g) k = processedFileKeys s k"
  proof (cases "hasValidExtension (fileName g)")
    case True
    with False show ?thesis by (simp add: fileStep_keeps_other_key)
  next
    case False
    then show ?thesis by (simp add: fileStep_def)
  qed
  with assms show ?thesis by simp
next
  case True
  then have valid: "hasValidExtension (fileName g)" and key: "dedupKey e g = Some k" by simp_all
  from key obtain fileData category where p: "processExcelFile e g = Some (fileData, category)"
    by (auto simp: dedupKey_def split: option.splits)
  show ?thesis
  proof (cases "jsGreater (revisionDate g) d")
    case True
    have "processedFileKeys (fileStep e s g) k = Some (fileName g, revisionDate g)"
      by (simp add: fileStep_supersede(2) [OF valid p key assms(1) True])
    moreover have "\<not> jsGreater c (revisionDate g)"
      by (rule jsGreater_trans_not [OF assms(2) True])
    ultimately show ?thesis by simp
  next
    case False
    have "processedFileKeys (fileStep e s g) k = processedFileKeys s k"
      by (simp add: fileStep_stale(2) [OF valid key assms(1) False])
    with assms show ?thesis by simp
  qed
qed

lemma foldl_registered:
  assumes "processedFileKeys s k = Some (n, d)" and "\<not> jsGreater c d"
  shows "\<exists>n' d'. processedFileKeys (foldl (fileStep e) s gs) k = Some (n', d') \<and> \<not> jsGreater c d'"
  using assms
proof (induction gs arbitrary: s n d)
  case Nil
  then show ?case by simp
next
  case (Cons g gs)
  from fileStep_registered [OF Cons.prems, of e g]
  obtain n' d' where "processedFileKeys (fileStep e s g) k = Some (n', d')" "\<not> jsGreater c d'"
    by blast
  from Cons.IH [OF this] show ?case by simp
qed

lemma fileStep_registers:
  assumes "hasValidExtension (fileName f)" and "dedupKey e f = Some k"
  shows "\<exists>n d. processedFileKeys (fileStep e s f) k = Some (n, d) \<and> \<not> jsGreater (revisionDate f) d"
proof -
  from assms(2) obtain fileData category where p: "processExcelFile e f = Some (fileData, category)"
    by (auto simp: dedupKey_def split: option.splits)
  show ?thesis
  proof (cases "processedFileKeys s k")
    case None
    show ?thesis
      by (simp add: fileStep_new(2) [OF assms(1) p assms(2) None] jsGreater_irrefl)
  next
    case (Some info)
    obtain n d where info: "processedFileKeys s k = Some (n, d)" using Some by (cases info) simp
    show ?thesis
    proof (cases "jsGreater (revisionDate f) d")
      case True
      show ?thesis
        by (simp add: fileStep_supersede(2) [OF assms(1) p assms(2) info True] jsGreater_irrefl)
    next
      case False
      show ?thesis
        using info False by (simp add: fileStep_stale(2) [OF assms(1) assms(2) info False])
    qed
  qed
qed

text \<open>A file that yields no data, or has no valid extension, changes none of the four.\<close>

lemma fileStep_skipped:
  assumes "\<not> hasValidExtension (fileName f) \<or> dedupKey e f = None"
  shows "combinedDataRows (fileStep e s f) = combinedDataRows s"
    and "processedFileKeys (fileStep e s f) = processedFileKeys s"
    and "filenamePartsByCategory (fileStep e s f) = filenamePartsByCategory s"
    and "processedFiles (fileStep e s f) = processedFiles s"
  using assms
  by (auto simp: fileStep_def dedupKey_def Let_def split: option.splits)

lemma fileStep_jNumberSet:
  "jNumberSet (fileStep e s f) =
     (if hasValidExtension (fileName f) \<and> extractJNumber (fileName f) \<noteq> []
      then setAdd (extractJNumber (fileName f)) (jNumberSet s) else jNumberSet s)"
  by (auto simp: fileStep_def Let_def keySeen_def keyNew_def split: option.splits)

lemma fileStep_categories:
  "categories (fileStep e s f) =
     (case processExcelFile e f of
        None \<Rightarrow> categories s
      | Some (fileData, category) \<Rightarrow>
          if hasValidExtension (fileName f) \<and> category \<noteq> []
          then setAdd category (categories s) else categories s)"
  by (auto simp: fileStep_def Let_def keySeen_def keyNew_def split: option.splits)

lemma fileStep_unitNumberSet: "unitNumberSet (fileStep e s f) = unitNumberSet s"
  by (auto simp: fileStep_def Let_def keySeen_def keyNew_def split: option.splits)

section \<open>Summary sets\<close>

lemma insertAll_simps [simp]:
  "insertAll acc [] = acc"
  "insertAll acc (y # ys) = insertAll (setAdd y acc) ys"
  "insertAll acc (ys @ zs) = insertAll (insertAll acc ys) zs"
  by (simp_all add: insertAll_def)

lemma set_insertAll: "set (insertAll acc ys) = set acc \<union> set ys"
  by (induction ys arbitrary: acc) (auto simp: set_setAdd)

lemma insertAll_insertAll: "insertAll acc (insertAll [] ys) = insertAll acc ys"
proof (induction ys rule: rev_induct)
  case Nil
  then show ?case by simp
next
  case (snoc y ys)
  show ?case
  proof (cases "y \<in> set ys")
    case True
    then have "insertAll [] (ys @ [y]) = insertAll [] ys"
      by (simp add: setAdd_def set_insertAll)
    moreover from True have "insertAll acc (ys @ [y]) = insertAll acc ys"
      by (simp add: setAdd_def set_insertAll)
    ultimately show ?thesis using snoc by simp
  next
    case False
    then have "insertAll [] (ys @ [y]) = insertAll [] ys @ [y]"
      by (simp add: setAdd_def set_insertAll)
    then show ?thesis using snoc by simp
  qed
qed

lemma hd_insertAll: "acc \<noteq> [] \<Longrightarrow> hd (insertAll acc ys) = hd acc"
  by (induction ys arbitrary: acc) (auto simp: setAdd_def)

lemma hd_insertAll_Nil: "ys \<noteq> [] \<Longrightarrow> hd (insertAll [] ys) = hd ys"
  by (cases ys) (simp_all add: hd_insertAll setAdd_def)

lemma jNumbersOf_Nil [simp]: "jNumbersOf [] = []"
  by (simp add: jNumbersOf_def)

lemma jNumbersOf_append [simp]: "jNumbersOf (fs @ gs) = jNumbersOf fs @ jNumbersOf gs"
  by (simp add: jNumbersOf_def)

lemma foldl_jNumberSet:
  "jNumberSet (foldl (fileStep e) s fs) = insertAll (jNumberSet s) (jNumbersOf fs)"
  by (induction fs arbitrary: s) (simp_all add: jNumbersOf_def fileStep_jNumberSet)

lemma processFiles_jNumberSet:
  "jNumberSet (processFiles e fs) = insertAll [] (jNumbersOf fs)"
  by (simp add: processFiles_def Let_def foldl_jNumberSet initialState_def)

lemma mergeFolder_jNumberSet:
  "jNumberSet (mergeFolder e acc g) = insertAll (jNumberSet acc) (jNumbersOf (folderFiles g))"
  by (simp add: mergeFolder_def Let_def processFiles_jNumberSet insertAll_insertAll
      insertAll_def [symmetric])

lemma foldl_mergeFolder_jNumberSet:
  "jNumberSet (foldl (mergeFolder e) acc gs)
     = insertAll (jNumberSet acc) (jNumbersOf (concat (map folderFiles gs)))"
  by (induction gs arbitrary: acc) (simp_all add: mergeFolder_jNumberSet)

lemma mergeFolders_jNumberSet:
  "jNumberSet (mergeFolders e gs) = insertAll [] (jNumbersOf (concat (map folderFiles gs)))"
  by (simp add: mergeFolders_def foldl_mergeFolder_jNumberSet emptySummary_def)

lemma categoriesOf_Nil [simp]: "categoriesOf e [] = []"
  by (simp add: categoriesOf_def)

lemma categoriesOf_append [simp]: "categoriesOf e (fs @ gs) = categoriesOf e fs @ categoriesOf e gs"
  by (simp add: categoriesOf_def)

lemma foldl_categories:
  "categories (foldl (fileStep e) s fs) = insertAll (categories s) (categoriesOf e fs)"
  by (induction fs arbitrary: s)
    (auto simp: categoriesOf_def fileStep_categories split: option.splits)

lemma processFiles_categories:
  "categories (processFiles e fs) = insertAll [] (categoriesOf e fs)"
  by (simp add: processFiles_def Let_def foldl_categories initialState_def)

lemma mergeFolder_categories:
  "categories (mergeFolder e acc g) = insertAll (categories acc) (categoriesOf e (folderFiles g))"
  by (simp add: mergeFolder_def Let_def processFiles_categories insertAll_insertAll
      insertAll_def [symmetric])

lemma foldl_mergeFolder_categories:
  "categories (foldl (mergeFolder e) acc gs)
     = insertAll (categories acc) (categoriesOf e (concat (map folderFiles gs)))"
  by (induction gs arbitrary: acc) (simp_all add: mergeFolder_categories)

lemma mergeFolders_categories:
  "categories (mergeFolders e gs) = insertAll [] (categoriesOf e (concat (map folderFiles gs)))"
  by (simp add: mergeFolders_def foldl_mergeFolder_categories emptySummary_def)

text \<open>Unit numbers: nothing is ever inserted.\<close>

lemma foldl_unitNumberSet: "unitNumberSet (foldl (fileStep e) s fs) = unitNumberSet s"
  by (induction fs arbitrary: s) (simp_all add: fileStep_unitNumberSet)

lemma processFiles_unitNumberSet: "unitNumberSet (processFiles e fs) = []"
  by (simp add: processFiles_def Let_def foldl_unitNumberSet initialState_def)

lemma mergeFolder_unitNumberSet: "unitNumberSet (mergeFolder e acc g) = unitNumberSet acc"
  by (simp add: mergeFolder_def Let_def processFiles_unitNumberSet)

lemma mergeFolders_unitNumberSet: "unitNumberSet (mergeFolders e gs) = []"
proof -
  have "unitNumberSet (foldl (mergeFolder e) acc gs) = unitNumberSet acc" for acc
    by (induction gs arbitrary: acc) (simp_all add: mergeFolder_unitNumberSet)
  then show ?thesis by (simp add: mergeFolders_def emptySummary_def)
qed

section \<open>Tokens\<close>

lemma sortParts_fields [simp]:
  "partsKOUNYUU (sortParts p) = sort_key tokenKey (partsKOUNYUU p)"
  "partsSEISAKU (sortParts p) = sort_key tokenKey (partsSEISAKU p)"
  "partsDENKI (sortParts p) = sort_key tokenKey (partsDENKI p)"
  by (simp_all add: sortParts_def)

lemma processFiles_parts:
  "filenamePartsByCategory (processFiles e files)
     = sortParts (filenamePartsByCategory (foldl (fileStep e) initialState files))"
  by (simp add: processFiles_def Let_def)

lemma mergeParts_fields [simp]:
  "partsKOUNYUU (mergeParts p q) = partsKOUNYUU p @ partsKOUNYUU q"
  "partsSEISAKU (mergeParts p q) = partsSEISAKU p @ partsSEISAKU q"
  "partsDENKI (mergeParts p q) = partsDENKI p @ partsDENKI q"
  by (simp_all add: mergeParts_def)

lemma mergeFolder_parts:
  "filenamePartsByCategory (mergeFolder e acc g)
     = mergeParts (filenamePartsByCategory acc) (filenamePartsByCategory (processFiles e (folderFiles g)))"
  by (simp add: mergeFolder_def Let_def)

lemma foldl_mergeFolder_parts:
  "partsKOUNYUU (filenamePartsByCategory (foldl (mergeFolder e) acc gs))
     = partsKOUNYUU (filenamePartsByCategory acc)
       @ concat (map (\<lambda>g. partsKOUNYUU (filenamePartsByCategory (processFiles e (folderFiles g)))) gs)"
  "partsSEISAKU (filenamePartsByCategory (foldl (mergeFolder e) acc gs))
     = partsSEISAKU (filenamePartsByCategory acc)
       @ concat (map (\<lambda>g. partsSEISAKU (filenamePartsByCategory (processFiles e (folderFiles g)))) gs)"
  "partsDENKI (filenamePartsByCategory (foldl (mergeFolder e) acc gs))
     = partsDENKI (filenamePartsByCategory acc)
       @ concat (map (\<lambda>g. partsDENKI (filenamePartsByCategory (processFiles e (folderFiles g)))) gs)"
  by (induction gs arbitrary: acc) (simp_all add: mergeFolder_parts)

lemma mergeFolders_parts:
  "partsKOUNYUU (filenamePartsByCategory (mergeFolders e gs))
     = concat (map (\<lambda>g. partsKOUNYUU (filenamePartsByCategory (processFiles e (folderFiles g)))) gs)"
  "partsSEISAKU (filenamePartsByCategory (mergeFolders e gs))
     = concat (map (\<lambda>g. partsSEISAKU (filenamePartsByCategory (processFiles e (folderFiles g)))) gs)"
  "partsDENKI (filenamePartsByCategory (mergeFolders e gs))
     = concat (map (\<lambda>g. partsDENKI (filenamePartsByCategory (processFiles e (folderFiles g)))) gs)"
  by (simp_all add: mergeFolders_def foldl_mergeFolder_parts emptySummary_def emptyParts_def)

lemma tokenKey_no_digits: "digitsOnly t = [] \<Longrightarrow> tokenKey t = 0"
  by (simp add: tokenKey_def parseInt_def)

lemmas tokenKey_evals = tokenKey_def digitsOnly_def parseInt_def isWhiteSpace_def isRadixDigit_def
  isDigit_def digitValue_def Let_def ascii_def

lemma tokenKey_samples:
  "tokenKey (36092 # ascii ''03'') = 3"
  "tokenKey (36092 # ascii ''01'') = 1"
  "tokenKey (36092 # ascii ''10'') = 10"
  "tokenKey [36092] = 0"
  by (simp_all add: tokenKey_evals)

section \<open>The name\<close>

lemma newFileName_spec:
  "newFileName jNumbers p ts = specName (case jNumbers of [] \<Rightarrow> [] | j # _ \<Rightarrow> j) p ts"
  by (cases "partsKOUNYUU p = []"; cases "partsSEISAKU p = []"; cases "partsDENKI p = []")
    (simp_all add: newFileName_def specName_def specCategoryTokens_def joinWith_def
      Let_def)

lemma name_example:
  "newFileName [ascii ''J0000000001'']
      \<lparr>partsKOUNYUU = [36092 # ascii ''02''], partsSEISAKU = [35069 # ascii ''01''], partsDENKI = []\<rparr>
      (ascii ''20240101-0000'')
    = ascii ''J0000000001_'' @ [36092] @ ascii ''02_'' @ [35069] @ ascii ''01_20240101-0000''"
  by (simp add: newFileName_def joinWith_def Let_def ascii_def underscore_def)

lemma newFileName_first:
  "newFileName (j # js) p ts = j @ newFileName [] p ts"
  by (simp add: newFileName_def Let_def)

lemma newFileName_none:
  "\<exists>rest. newFileName [] p ts = underscore # rest"
  by (simp add: newFileName_def Let_def)

section \<open>The sample inputs, evaluated\<close>

lemmas string_evals = ascii_def KOUNYUU_def SEISAKU_def DENKI_def underscore_def isDigit_def

lemma valid_old: "hasValidExtension (fileName scenarioOld)"
  by (simp add: scenarioOld_def hasValidExtension_def validExtensions_def endsWith_def
      toLowerCase_def string_evals)

lemma valid_new: "hasValidExtension (fileName scenarioNew)"
  by (simp add: scenarioNew_def hasValidExtension_def validExtensions_def endsWith_def
      toLowerCase_def string_evals)

lemma category_old: "determineCategory (fileName scenarioOld) = KOUNYUU"
  by (simp add: scenarioOld_def string_evals)

lemma category_new: "determineCategory (fileName scenarioNew) = KOUNYUU"
  by (simp add: scenarioNew_def string_evals)

lemmas row_evals = sampleEnv_def sampleHeader_def sampleRow_def normalHeader_def normalRow_def
  pruneRow_def REQUIRED_COLUMN_COUNT_def REMOVE_COLUMN_COUNT_def keepRow_def cellAt_def
  STOCK_STATUS_COLUMN_INDEX_def excludeStockStatus_def formatRow_def setCell_def
  DATE_FORMAT_COLUMN_L_def DATE_FORMAT_COLUMN_M_def DATE_FORMAT_COLUMN_N_def Let_def

lemma data_old:
  "processExcelFile sampleEnv scenarioOld =
     Some ([normalHeader, normalRow 1 (ascii ''ok''), normalRow 3 (ascii ''ok''),
            normalRow 4 (ascii ''ok'')], KOUNYUU)"
proof -
  have s: "sheetValues scenarioOld = Some (sampleHeader # [sampleRow 1 (ascii ''ok''),
      sampleRow 2 excludeStockStatus, sampleRow 3 (ascii ''ok''), sampleRow 4 (ascii ''ok'')])"
    by (simp add: scenarioOld_def)
  show ?thesis
    unfolding processExcelFile_rows [OF s] category_old
    by (simp add: row_evals ascii_def)
qed

lemma data_new:
  "processExcelFile sampleEnv scenarioNew =
     Some ([normalHeader, normalRow 5 (ascii ''ok''), normalRow 6 (ascii ''ok'')], KOUNYUU)"
proof -
  have s: "sheetValues scenarioNew = Some (sampleHeader # [sampleRow 5 (ascii ''ok''),
      sampleRow 6 (ascii ''ok'')])"
    by (simp add: scenarioNew_def)
  show ?thesis
    unfolding processExcelFile_rows [OF s] category_new
    by (simp add: row_evals ascii_def)
qed

lemma jnumber_old: "extractJNumber (fileName scenarioOld) = ascii ''J0000000001''"
  by (simp add: scenarioOld_def string_evals)

lemma jnumber_new: "extractJNumber (fileName scenarioNew) = ascii ''J0000000001''"
  by (simp add: scenarioNew_def string_evals)

lemma decimal_one: "decimal (Suc 0) = [49]"
  by (simp add: decimal.simps)

lemma unit_cell: "cellAt (normalRow n stock) (Suc 0) = CNum 1"
  by (simp add: normalRow_def cellAt_def)

lemmas unit_evals = makeFileKey_def collectUnitNumbersForCheck_def unit_cell decimal_one
  MAX_SAFE_INTEGER_def
  digitsOnly_def trim_def isWhiteSpace_def

lemma key_old: "dedupKey sampleEnv scenarioOld = Some scenarioKey"
  by (simp add: dedupKey_def data_old jnumber_old unit_evals scenarioKey_def string_evals)

lemma key_new: "dedupKey sampleEnv scenarioNew = Some scenarioKey"
  by (simp add: dedupKey_def data_new jnumber_new unit_evals scenarioKey_def string_evals)

lemmas parseInt_evals = parseInt_def isWhiteSpace_def isRadixDigit_def isDigit_def
  digitValue_def Let_def

lemma date_old: "revisionDate scenarioOld = Some 20240105"
  by (simp add: revisionDate_def scenarioOld_def datePrefixLength_def ascii_def parseInt_evals)

lemma date_new: "revisionDate scenarioNew = Some 20240110"
  by (simp add: revisionDate_def scenarioNew_def datePrefixLength_def ascii_def parseInt_evals)

lemma token_old: "processFilename (fileName scenarioOld) KOUNYUU = 36092 # ascii ''01''"
  by (simp add: processFilename_def scenarioOld_def padStart_def toLowerCase_def string_evals)

lemma token_new: "processFilename (fileName scenarioNew) KOUNYUU = 36092 # ascii ''01''"
  by (simp add: processFilename_def scenarioNew_def padStart_def toLowerCase_def string_evals)

lemma fresh_initial: "processedFileKeys initialState k = None"
  by (simp add: initialState_def)

lemma afterOld_rows:
  "combinedDataRows afterOld =
     [normalHeader, normalRow 1 (ascii ''ok''), normalRow 3 (ascii ''ok''), normalRow 4 (ascii ''ok'')]"
  unfolding afterOld_def fileStep_new(1) [OF valid_old data_old key_old fresh_initial]
  by (simp add: initialState_def)

lemma afterOld_keys:
  "processedFileKeys afterOld scenarioKey = Some (fileName scenarioOld, Some 20240105)"
  unfolding afterOld_def fileStep_new(2) [OF valid_old data_old key_old fresh_initial]
  by (simp add: date_old)

lemma afterOld_count: "processedFiles afterOld = 1"
  unfolding afterOld_def fileStep_new(4) [OF valid_old data_old key_old fresh_initial]
  by (simp add: initialState_def)

lemma afterOld_parts:
  "filenamePartsByCategory afterOld =
     \<lparr>partsKOUNYUU = [36092 # ascii ''01''], partsSEISAKU = [], partsDENKI = []\<rparr>"
  unfolding afterOld_def fileStep_new(3) [OF valid_old data_old key_old fresh_initial]
  by (simp add: token_old initialState_def emptyParts_def pushPart_def)

lemma newer_date: "jsGreater (revisionDate scenarioNew) (Some 20240105)"
  by (simp add: date_new)

lemma name_not_in_rows:
  "\<not> rowIncludes normalHeader (fileName scenarioOld)"
  "\<not> rowIncludes (normalRow n (ascii ''ok'')) (fileName scenarioOld)"
  by (simp_all add: rowIncludes_def normalHeader_def normalRow_def scenarioOld_def string_evals)

lemma afterBoth_rows:
  "combinedDataRows (fileStep sampleEnv afterOld scenarioNew) =
     [normalHeader, normalRow 1 (ascii ''ok''), normalRow 3 (ascii ''ok''), normalRow 4 (ascii ''ok''),
      normalRow 5 (ascii ''ok''), normalRow 6 (ascii ''ok'')]"
  unfolding fileStep_supersede(1) [OF valid_new data_new key_new afterOld_keys newer_date]
  by (simp add: afterOld_rows name_not_in_rows)

lemma afterBoth_count: "processedFiles (fileStep sampleEnv afterOld scenarioNew) = 2"
  unfolding fileStep_supersede(4) [OF valid_new data_new key_new afterOld_keys newer_date]
  by (simp add: afterOld_count)

text \<open>One folder per file.\<close>

lemma only_new_rows:
  "combinedDataRows (fileStep sampleEnv initialState scenarioNew) =
     [normalHeader, normalRow 5 (ascii ''ok''), normalRow 6 (ascii ''ok'')]"
  unfolding fileStep_new(1) [OF valid_new data_new key_new fresh_initial]
  by (simp add: initialState_def)

lemma only_new_count: "processedFiles (fileStep sampleEnv initialState scenarioNew) = 1"
  unfolding fileStep_new(4) [OF valid_new data_new key_new fresh_initial]
  by (simp add: initialState_def)

lemma merged_rows:
  "combinedDataRows (mergeFolders sampleEnv [folderOld, folderNew]) =
     [normalHeader, normalRow 1 (ascii ''ok''), normalRow 3 (ascii ''ok''), normalRow 4 (ascii ''ok''),
      normalHeader, normalRow 5 (ascii ''ok''), normalRow 6 (ascii ''ok'')]"
  using afterOld_rows only_new_rows
  by (simp add: mergeFolders_def mergeFolder_def processFiles_def Let_def folderOld_def
      folderNew_def emptySummary_def afterOld_def)

lemma merged_count:
  "processedFiles (mergeFolders sampleEnv [folderOld, folderNew]) = 2"
  using afterOld_count only_new_count
  by (simp add: mergeFolders_def mergeFolder_def processFiles_def Let_def folderOld_def
      folderNew_def emptySummary_def afterOld_def)

section \<open>Revisions of one list\<close>

lemma seen_again:
  assumes "f \<in> set files"
  shows "combinedDataRows (fileStep e (foldl (fileStep e) s files) f)
           = combinedDataRows (foldl (fileStep e) s files)
       \<and> processedFileKeys (fileStep e (foldl (fileStep e) s files) f)
           = processedFileKeys (foldl (fileStep e) s files)
       \<and> filenamePartsByCategory (fileStep e (foldl (fileStep e) s files) f)
           = filenamePartsByCategory (foldl (fileStep e) s files)
       \<and> processedFiles (fileStep e (foldl (fileStep e) s files) f)
           = processedFiles (foldl (fileStep e) s files)"
proof (cases "\<not> hasValidExtension (fileName f) \<or> dedupKey e f = None")
  case True
  then show ?thesis by (simp add: fileStep_skipped)
next
  case False
  then obtain k where valid: "hasValidExtension (fileName f)" and key: "dedupKey e f = Some k"
    by auto
  from assms obtain xs ys where split: "files = xs @ f # ys"
    by (auto simp: in_set_conv_decomp)
  from fileStep_registers [OF valid key, of "foldl (fileStep e) s xs"]
  obtain n d where "processedFileKeys (fileStep e (foldl (fileStep e) s xs) f) k = Some (n, d)"
    "\<not> jsGreater (revisionDate f) d" by blast
  from foldl_registered [OF this, of e ys]
  obtain n' d' where reg: "processedFileKeys (foldl (fileStep e) s files) k = Some (n', d')"
    and old: "\<not> jsGreater (revisionDate f) d'"
    by (auto simp: split)
  show ?thesis
    by (simp add: fileStep_stale [OF valid key reg old])
qed


text \<open>
  Claim C8. Processing a file a second time changes nothing: this holds for the whole
  state when the second time follows the first at once, and for the rows, the registry,
  the tokens and the count of processed files when the file is any of those the loop
  has already gone through. More generally, a file whose key is registered with a date
  that its own date does not exceed (the stored date is equal or greater, or one of the
  two is not a number) leaves the rows, the registry, the tokens and the count as they
  are.
\<close>

theorem dedup_idempotence:
  "fileStep e (fileStep e s f) f = fileStep e s f
   \<and> (f \<in> set files \<longrightarrow>
        combinedDataRows (fileStep e (foldl (fileStep e) s files) f)
          = combinedDataRows (foldl (fileStep e) s files)
      \<and> processedFileKeys (fileStep e (foldl (fileStep e) s files) f)
          = processedFileKeys (foldl (fileStep e) s files)
      \<and> filenamePartsByCategory (fileStep e (foldl (fileStep e) s files) f)
          = filenamePartsByCategory (foldl (fileStep e) s files)
      \<and> processedFiles (fileStep e (foldl (fileStep e) s files) f)
          = processedFiles (foldl (fileStep e) s files))
   \<and> (hasValidExtension (fileName f) \<and> dedupKey e f = Some k
        \<and> processedFileKeys s k = Some (n, d) \<and> \<not> jsGreater (revisionDate f) d \<longrightarrow>
        combinedDataRows (fileStep e s f) = combinedDataRows s
      \<and> processedFileKeys (fileStep e s f) = processedFileKeys s
      \<and> filenamePartsByCategory (fileStep e s f) = filenamePartsByCategory s
      \<and> processedFiles (fileStep e s f) = processedFiles s)"
  using fileStep_idem [of e s f] seen_again [of f files e s] fileStep_stale [of f e k s n d]
  by blast

lemma afterOld_stale: "\<not> jsGreater (revisionDate scenarioOld) (Some 20240105)"
  by (simp add: date_old)

theorem dedup_idempotence_witness:
  "scenarioOld \<in> set [scenarioOld, scenarioNew]
   \<and> combinedDataRows
        (fileStep sampleEnv (foldl (fileStep sampleEnv) initialState [scenarioOld, scenarioNew])
           scenarioOld)
      = [normalHeader, normalRow 1 (ascii ''ok''), normalRow 3 (ascii ''ok''),
         normalRow 4 (ascii ''ok''), normalRow 5 (ascii ''ok''), normalRow 6 (ascii ''ok'')]
   \<and> processedFiles
        (fileStep sampleEnv (foldl (fileStep sampleEnv) initialState [scenarioOld, scenarioNew])
           scenarioOld) = 2
   \<and> hasValidExtension (fileName scenarioOld)
   \<and> dedupKey sampleEnv scenarioOld = Some scenarioKey
   \<and> processedFileKeys afterOld scenarioKey = Some (fileName scenarioOld, Some 20240105)
   \<and> \<not> jsGreater (revisionDate scenarioOld) (Some 20240105)
   \<and> combinedDataRows (fileStep sampleEnv afterOld scenarioOld)
      = [normalHeader, normalRow 1 (ascii ''ok''), normalRow 3 (ascii ''ok''),
         normalRow 4 (ascii ''ok'')]
   \<and> processedFiles (fileStep sampleEnv afterOld scenarioOld) = 1"
proof -
  have m: "scenarioOld \<in> set [scenarioOld, scenarioNew]" by simp
  have both: "foldl (fileStep sampleEnv) initialState [scenarioOld, scenarioNew]
      = fileStep sampleEnv afterOld scenarioNew"
    by (simp add: afterOld_def)
  from dedup_idempotence [of sampleEnv initialState scenarioOld "[scenarioOld, scenarioNew]"] m
  have again: "combinedDataRows
        (fileStep sampleEnv (foldl (fileStep sampleEnv) initialState [scenarioOld, scenarioNew])
           scenarioOld)
      = combinedDataRows (fileStep sampleEnv afterOld scenarioNew)"
    "processedFiles
        (fileStep sampleEnv (foldl (fileStep sampleEnv) initialState [scenarioOld, scenarioNew])
           scenarioOld)
      = processedFiles (fileStep sampleEnv afterOld scenarioNew)"
    unfolding both by blast+
  from dedup_idempotence [of sampleEnv afterOld scenarioOld _ scenarioKey
      "fileName scenarioOld" "Some 20240105"]
    valid_old key_old afterOld_keys afterOld_stale
  have stale: "combinedDataRows (fileStep sampleEnv afterOld scenarioOld) = combinedDataRows afterOld"
    "processedFiles (fileStep sampleEnv afterOld scenarioOld) = processedFiles afterOld"
    by blast+
  show ?thesis
    using m valid_old key_old afterOld_keys afterOld_stale
    unfolding again stale
    by (simp add: afterBoth_rows afterBoth_count afterOld_rows afterOld_count)
qed

text \<open>
  Claim C1, as amended. Two files of one folder with the same key and dates \<open>a < b\<close>,
  the key not yet registered: whichever is processed first, the registry ends with the
  later file and its date, and the data rows of the later file are in the rows. When
  the later file comes first, its rows are taken as for any new key and the older file
  then changes no row. When the older file comes first, the rows after the later file
  are rows that were there before it, followed by the data rows of the later file,
  without its header.
\<close>

theorem recency_within_group:
  assumes v1: "hasValidExtension (fileName d1)" and v2: "hasValidExtension (fileName d2)"
    and p1: "processExcelFile e d1 = Some (fileData1, category1)"
    and p2: "processExcelFile e d2 = Some (fileData2, category2)"
    and k1: "dedupKey e d1 = Some k" and k2: "dedupKey e d2 = Some k"
    and r1: "revisionDate d1 = Some a" and r2: "revisionDate d2 = Some b" and lt: "a < b"
    and fresh: "processedFileKeys s k = None"
  shows "combinedDataRows (fileStep e s d2) =
           (if processedFiles s = 0 then fileData2 else combinedDataRows s @ drop 1 fileData2)
       \<and> combinedDataRows (fileStep e (fileStep e s d2) d1) = combinedDataRows (fileStep e s d2)
       \<and> processedFileKeys (fileStep e (fileStep e s d2) d1) k = Some (fileName d2, Some b)
       \<and> (\<exists>kept. combinedDataRows (fileStep e (fileStep e s d1) d2) = kept @ drop 1 fileData2
             \<and> set kept \<subseteq> set (combinedDataRows (fileStep e s d1)))
       \<and> processedFileKeys (fileStep e (fileStep e s d1) d2) k = Some (fileName d2, Some b)"
proof -
  have reg2: "processedFileKeys (fileStep e s d2) k = Some (fileName d2, Some b)"
    by (simp add: fileStep_new(2) [OF v2 p2 k2 fresh] r2)
  have reg1: "processedFileKeys (fileStep e s d1) k = Some (fileName d1, Some a)"
    by (simp add: fileStep_new(2) [OF v1 p1 k1 fresh] r1)
  have older: "\<not> jsGreater (revisionDate d1) (Some b)"
    using lt by (simp add: r1)
  have newer: "jsGreater (revisionDate d2) (Some a)"
    using lt by (simp add: r2)
  have A: "combinedDataRows (fileStep e s d2) =
           (if processedFiles s = 0 then fileData2 else combinedDataRows s @ drop 1 fileData2)"
    by (rule fileStep_new(1) [OF v2 p2 k2 fresh])
  have B: "combinedDataRows (fileStep e (fileStep e s d2) d1) = combinedDataRows (fileStep e s d2)"
    by (rule fileStep_stale(1) [OF v1 k1 reg2 older])
  have C: "processedFileKeys (fileStep e (fileStep e s d2) d1) k = Some (fileName d2, Some b)"
    by (simp add: fileStep_stale(2) [OF v1 k1 reg2 older] reg2)
  have "combinedDataRows (fileStep e (fileStep e s d1) d2) =
           filter (\<lambda>row. \<not> rowIncludes row (fileName d1)) (combinedDataRows (fileStep e s d1))
           @ drop 1 fileData2"
    by (rule fileStep_supersede(1) [OF v2 p2 k2 reg1 newer])
  moreover have "set (filter (\<lambda>row. \<not> rowIncludes row (fileName d1))
        (combinedDataRows (fileStep e s d1))) \<subseteq> set (combinedDataRows (fileStep e s d1))"
    by auto
  ultimately have D: "\<exists>kept. combinedDataRows (fileStep e (fileStep e s d1) d2)
        = kept @ drop 1 fileData2 \<and> set kept \<subseteq> set (combinedDataRows (fileStep e s d1))"
    by blast
  have E: "processedFileKeys (fileStep e (fileStep e s d1) d2) k = Some (fileName d2, Some b)"
    by (simp add: fileStep_supersede(2) [OF v2 p2 k2 reg1 newer] r2)
  from A B C D E show ?thesis by blast
qed

theorem recency_within_group_witness:
  "hasValidExtension (fileName scenarioOld) \<and> hasValidExtension (fileName scenarioNew)
   \<and> dedupKey sampleEnv scenarioOld = Some scenarioKey
   \<and> dedupKey sampleEnv scenarioNew = Some scenarioKey
   \<and> revisionDate scenarioOld = Some 20240105 \<and> revisionDate scenarioNew = Some 20240110
   \<and> processedFileKeys initialState scenarioKey = None
   \<and> combinedDataRows (fileStep sampleEnv initialState scenarioNew)
       = [normalHeader, normalRow 5 (ascii ''ok''), normalRow 6 (ascii ''ok'')]
   \<and> combinedDataRows (fileStep sampleEnv (fileStep sampleEnv initialState scenarioNew) scenarioOld)
       = [normalHeader, normalRow 5 (ascii ''ok''), normalRow 6 (ascii ''ok'')]
   \<and> processedFileKeys (fileStep sampleEnv (fileStep sampleEnv initialState scenarioNew) scenarioOld)
        scenarioKey = Some (fileName scenarioNew, Some 20240110)
   \<and> (\<exists>kept. combinedDataRows
                (fileStep sampleEnv (fileStep sampleEnv initialState scenarioOld) scenarioNew)
              = kept @ [normalRow 5 (ascii ''ok''), normalRow 6 (ascii ''ok'')]
            \<and> set kept \<subseteq> set (combinedDataRows (fileStep sampleEnv initialState scenarioOld)))
   \<and> processedFileKeys (fileStep sampleEnv (fileStep sampleEnv initialState scenarioOld) scenarioNew)
        scenarioKey = Some (fileName scenarioNew, Some 20240110)"
proof -
  have lt: "(20240105 :: int) < 20240110" by simp
  note inst = recency_within_group [OF valid_old valid_new data_old data_new key_old key_new
      date_old date_new lt fresh_initial]
  show ?thesis
    using inst valid_old valid_new key_old key_new date_old date_new
    by (simp add: fresh_initial only_new_rows)
qed

text \<open>
  The claim as stated fails on the scenario: the two files have the same key and the
  dates 20240105 and 20240110, and a row of the older file is still there at the end,
  both when each file is in a folder of its own and when the two files are in one
  folder, older first.
\<close>

theorem recency_counterexample:
  "dedupKey sampleEnv scenarioOld = dedupKey sampleEnv scenarioNew
   \<and> revisionDate scenarioOld = Some 20240105 \<and> revisionDate scenarioNew = Some 20240110
   \<and> processExcelFile sampleEnv scenarioOld
       = Some ([normalHeader, normalRow 1 (ascii ''ok''), normalRow 3 (ascii ''ok''),
                normalRow 4 (ascii ''ok'')], KOUNYUU)
   \<and> normalRow 1 (ascii ''ok'')
       \<in> set (combinedDataRows (mergeFolders sampleEnv [folderOld, folderNew]))
   \<and> normalRow 1 (ascii ''ok'')
       \<in> set (combinedDataRows (processFiles sampleEnv [scenarioOld, scenarioNew]))"
proof -
  have "combinedDataRows (processFiles sampleEnv [scenarioOld, scenarioNew])
      = combinedDataRows (fileStep sampleEnv afterOld scenarioNew)"
    by (simp add: processFiles_def Let_def afterOld_def)
  then show ?thesis
    by (simp add: key_old key_new date_old date_new data_old afterBoth_rows merged_rows)
qed

section \<open>The scenario of two folders\<close>

lemma merged_jNumberSet:
  "jNumberSet (mergeFolders sampleEnv [folderOld, folderNew]) = [ascii ''J0000000001'']"
  by (simp add: mergeFolders_jNumberSet jNumbersOf_def folderOld_def folderNew_def valid_old
      valid_new jnumber_old jnumber_new setAdd_def ascii_def)

lemma target_folders: "isTargetFolder folderOld" "isTargetFolder folderNew"
  by (simp_all add: isTargetFolder_def folderOld_def folderNew_def startsWith_def BUHIN_LIST_def
      ascii_def)

lemma merged_length: "length (combinedDataRows (mergeFolders sampleEnv [folderOld, folderNew])) = 7"
  by (simp add: merged_rows)

lemma scenario_run:
  "\<exists>u. combineExcelSheets sampleEnv scenarioWorld = Success u 2 7"
  by (simp add: combineExcelSheets_def tryBlock_def createSpreadsheet_def scenarioWorld_def
      target_folders merged_length merged_count Let_def ascii_def)

text \<open>
  Claim C2 fails as stated. In the scenario the merged rows are the header and the three
  valid rows of the file of 20240105, then the header and the two rows of the file of
  20240110: seven rows, and \<open>totalRows\<close> is 7.
\<close>

theorem scenario_counterexample:
  "combinedDataRows (mergeFolders sampleEnv [folderOld, folderNew])
     = [normalHeader, normalRow 1 (ascii ''ok''), normalRow 3 (ascii ''ok''),
        normalRow 4 (ascii ''ok''), normalHeader, normalRow 5 (ascii ''ok''),
        normalRow 6 (ascii ''ok'')]
   \<and> normalRow 1 (ascii ''ok'') \<in> set (combinedDataRows (mergeFolders sampleEnv [folderOld, folderNew]))
   \<and> (\<exists>u. combineExcelSheets sampleEnv scenarioWorld = Success u 2 7)"
  using scenario_run by (simp add: merged_rows)

text \<open>
  Claim C2, as amended. In the scenario the file of 20240105 yields its three valid data
  rows (the row without stock is dropped) and the file of 20240110 its two; the data rows
  of the merged dataset, those that carry the category label in front, are these five in
  this order, since files of different folders are not compared; \<open>processedFiles\<close> is 2
  and \<open>totalRows\<close> is the length of the merged row sequence.
\<close>

theorem scenario_merged:
  "processExcelFile sampleEnv scenarioOld
     = Some ([normalHeader, normalRow 1 (ascii ''ok''), normalRow 3 (ascii ''ok''),
              normalRow 4 (ascii ''ok'')], KOUNYUU)
   \<and> processExcelFile sampleEnv scenarioNew
     = Some ([normalHeader, normalRow 5 (ascii ''ok''), normalRow 6 (ascii ''ok'')], KOUNYUU)
   \<and> filter (\<lambda>row. cellAt row 0 = CStr KOUNYUU)
        (combinedDataRows (mergeFolders sampleEnv [folderOld, folderNew]))
     = [normalRow 1 (ascii ''ok''), normalRow 3 (ascii ''ok''), normalRow 4 (ascii ''ok''),
        normalRow 5 (ascii ''ok''), normalRow 6 (ascii ''ok'')]
   \<and> (\<exists>u. combineExcelSheets sampleEnv scenarioWorld
          = Success u 2 (length (combinedDataRows (mergeFolders sampleEnv [folderOld, folderNew]))))"
proof -
  have label: "cellAt (normalRow n stock) 0 = CStr KOUNYUU" for n stock
    by (simp add: normalRow_def cellAt_def)
  have title: "cellAt normalHeader 0 \<noteq> CStr KOUNYUU"
    by (simp add: normalHeader_def cellAt_def KOUNYUU_def ascii_def)
  have rows: "filter (\<lambda>row. cellAt row 0 = CStr KOUNYUU)
        (combinedDataRows (mergeFolders sampleEnv [folderOld, folderNew]))
     = [normalRow 1 (ascii ''ok''), normalRow 3 (ascii ''ok''), normalRow 4 (ascii ''ok''),
        normalRow 5 (ascii ''ok''), normalRow 6 (ascii ''ok'')]"
    by (simp add: merged_rows label title)
  have run: "\<exists>u. combineExcelSheets sampleEnv scenarioWorld
          = Success u 2 (length (combinedDataRows (mergeFolders sampleEnv [folderOld, folderNew])))"
    unfolding merged_length by (rule scenario_run)
  from data_old data_new rows run show ?thesis by blast
qed

text \<open>
  Claim C3 fails on the code. With one admitted file in each of two folders, the header
  row is in the merged rows twice, and \<open>createSpreadsheet\<close> numbers the second one as the
  fourth data row.
\<close>

theorem header_repeated:
  "length (filter (\<lambda>row. row = normalHeader)
      (combinedDataRows (mergeFolders sampleEnv [folderOld, folderNew]))) = 2
   \<and> finalData sampleEnv (combinedDataRows (mergeFolders sampleEnv [folderOld, folderNew])) ! 4
       = [CStr [], CStr [], CNum 4] @ normalHeader"
proof -
  have distinct: "normalRow n stock \<noteq> normalHeader" for n stock
    by (simp add: normalRow_def normalHeader_def)
  show ?thesis
    by (simp add: merged_rows distinct finalData_def Let_def enumerate_eq_zip upt_rec)
qed

section \<open>The summary sets\<close>

text \<open>
  Claim C4, as amended. For a file of any folder of the run that has a valid extension,
  the project number of its name, when there is one, is in the set of project numbers at
  the end, and its category, when the file yields data and the category is not empty,
  is in the set of categories, whatever the loop decides about its rows. No turn of the
  loop and no merge of a folder removes an element from one of the three sets.
\<close>

theorem summary_sets:
  "(g \<in> set gs \<and> f \<in> set (folderFiles g) \<and> hasValidExtension (fileName f) \<longrightarrow>
      (extractJNumber (fileName f) \<noteq> [] \<longrightarrow>
         extractJNumber (fileName f) \<in> set (jNumberSet (mergeFolders e gs)))
    \<and> (\<forall>fileData category. processExcelFile e f = Some (fileData, category) \<and> category \<noteq> [] \<longrightarrow>
         category \<in> set (categories (mergeFolders e gs))))
   \<and> set (jNumberSet s) \<subseteq> set (jNumberSet (fileStep e s f))
   \<and> set (unitNumberSet s) \<subseteq> set (unitNumberSet (fileStep e s f))
   \<and> set (categories s) \<subseteq> set (categories (fileStep e s f))
   \<and> set (jNumberSet acc) \<subseteq> set (jNumberSet (mergeFolder e acc g))
   \<and> set (unitNumberSet acc) \<subseteq> set (unitNumberSet (mergeFolder e acc g))
   \<and> set (categories acc) \<subseteq> set (categories (mergeFolder e acc g))"
proof -
  have A: "extractJNumber (fileName f) \<in> set (jNumberSet (mergeFolders e gs))"
    if "g \<in> set gs" "f \<in> set (folderFiles g)" "hasValidExtension (fileName f)"
      "extractJNumber (fileName f) \<noteq> []"
    using that by (auto simp: mergeFolders_jNumberSet set_insertAll jNumbersOf_def)
  have B: "category \<in> set (categories (mergeFolders e gs))"
    if "g \<in> set gs" "f \<in> set (folderFiles g)" "hasValidExtension (fileName f)"
      "processExcelFile e f = Some (fileData, category)" "category \<noteq> []" for fileData category
  proof -
    have "category = (case processExcelFile e f of None \<Rightarrow> [] | Some (fileData, category) \<Rightarrow> category)"
      using that(4) by simp
    with that show ?thesis
      unfolding mergeFolders_categories set_insertAll categoriesOf_def
      by (auto simp: image_iff intro!: bexI [of _ f] bexI [of _ g])
  qed
  have C: "set (jNumberSet s) \<subseteq> set (jNumberSet (fileStep e s f))"
    by (auto simp: fileStep_jNumberSet set_setAdd)
  have D: "set (unitNumberSet s) \<subseteq> set (unitNumberSet (fileStep e s f))"
    by (simp add: fileStep_unitNumberSet)
  have E: "set (categories s) \<subseteq> set (categories (fileStep e s f))"
    by (auto simp: fileStep_categories set_setAdd split: option.splits)
  have F: "set (jNumberSet acc) \<subseteq> set (jNumberSet (mergeFolder e acc g))"
    by (auto simp: mergeFolder_jNumberSet set_insertAll)
  have G: "set (unitNumberSet acc) \<subseteq> set (unitNumberSet (mergeFolder e acc g))"
    by (simp add: mergeFolder_unitNumberSet)
  have H: "set (categories acc) \<subseteq> set (categories (mergeFolder e acc g))"
    by (auto simp: mergeFolder_categories set_insertAll)
  from A B C D E F G H show ?thesis by blast
qed


theorem summary_sets_witness:
  "folderOld \<in> set [folderOld, folderNew] \<and> scenarioOld \<in> set (folderFiles folderOld)
   \<and> hasValidExtension (fileName scenarioOld)
   \<and> extractJNumber (fileName scenarioOld) = ascii ''J0000000001''
   \<and> ascii ''J0000000001'' \<in> set (jNumberSet (mergeFolders sampleEnv [folderOld, folderNew]))
   \<and> processExcelFile sampleEnv scenarioOld
       = Some ([normalHeader, normalRow 1 (ascii ''ok''), normalRow 3 (ascii ''ok''),
                normalRow 4 (ascii ''ok'')], KOUNYUU)
   \<and> KOUNYUU \<in> set (categories (mergeFolders sampleEnv [folderOld, folderNew]))"
proof -
  have g: "folderOld \<in> set [folderOld, folderNew]" by simp
  have f: "scenarioOld \<in> set (folderFiles folderOld)" by (simp add: folderOld_def)
  have j: "extractJNumber (fileName scenarioOld) \<noteq> []" by (simp add: jnumber_old ascii_def)
  have c: "KOUNYUU \<noteq> []" by (simp add: KOUNYUU_def)
  from summary_sets [of folderOld "[folderOld, folderNew]" scenarioOld sampleEnv]
    g f valid_old j data_old c
  have "extractJNumber (fileName scenarioOld)
          \<in> set (jNumberSet (mergeFolders sampleEnv [folderOld, folderNew]))"
    and "KOUNYUU \<in> set (categories (mergeFolders sampleEnv [folderOld, folderNew]))"
    by blast+
  then show ?thesis
    using g f valid_old data_old by (simp add: jnumber_old)
qed

text \<open>
  The claim as stated fails for a file without a project number and without a category in
  its name, whose sheet gives the unit number 1 (its key is \<open>__1\<close>): the file is
  processed, and at the end of the run none of the three sets holds anything.
\<close>

lemma valid_plain: "hasValidExtension (fileName plainDoc)"
  by (simp add: plainDoc_def hasValidExtension_def validExtensions_def endsWith_def
      toLowerCase_def string_evals)

lemma jnumber_plain: "extractJNumber (fileName plainDoc) = []"
  by (simp add: plainDoc_def string_evals)

lemma category_plain: "determineCategory (fileName plainDoc) = []"
  by (simp add: plainDoc_def string_evals)

lemma data_plain:
  "processExcelFile sampleEnv plainDoc =
     Some ([normalHeader,
            [CStr [], CNum 1, CNum 101, CStr (ascii ''ok''), CStr (ascii ''a''), CStr (ascii ''b''),
             CStr (ascii ''c''), CStr (ascii ''d''), CStr (ascii ''2024/01/01''),
             CStr (ascii ''f'')]], [])"
proof -
  have s: "sheetValues plainDoc = Some (sampleHeader # [sampleRow 1 (ascii ''ok'')])"
    by (simp add: plainDoc_def)
  show ?thesis
    unfolding processExcelFile_rows [OF s] category_plain
    by (simp add: row_evals string_evals)
qed

lemma key_plain: "dedupKey sampleEnv plainDoc = Some (ascii ''__1'')"
  by (simp add: dedupKey_def data_plain jnumber_plain makeFileKey_def
      collectUnitNumbersForCheck_def cellAt_def decimal_one MAX_SAFE_INTEGER_def digitsOnly_def
      trim_def
      isWhiteSpace_def string_evals)

theorem summary_sets_counterexample:
  "hasValidExtension (fileName plainDoc)
   \<and> extractJNumber (fileName plainDoc) = []
   \<and> dedupKey sampleEnv plainDoc = Some (ascii ''__1'')
   \<and> processedFiles (mergeFolders sampleEnv [folderPlain]) = 1
   \<and> jNumberSet (mergeFolders sampleEnv [folderPlain]) = []
   \<and> unitNumberSet (mergeFolders sampleEnv [folderPlain]) = []
   \<and> categories (mergeFolders sampleEnv [folderPlain]) = []"
proof -
  have count: "processedFiles (fileStep sampleEnv initialState plainDoc) = 1"
    unfolding fileStep_new(4) [OF valid_plain data_plain key_plain fresh_initial]
    by (simp add: initialState_def)
  have A: "processedFiles (mergeFolders sampleEnv [folderPlain]) = 1"
    using count
    by (simp add: mergeFolders_def mergeFolder_def processFiles_def Let_def folderPlain_def
        emptySummary_def)
  have B: "jNumberSet (mergeFolders sampleEnv [folderPlain]) = []"
    by (simp add: mergeFolders_jNumberSet jNumbersOf_def folderPlain_def jnumber_plain)
  have C: "categories (mergeFolders sampleEnv [folderPlain]) = []"
    by (simp add: mergeFolders_categories categoriesOf_def folderPlain_def data_plain)
  show ?thesis
    using valid_plain jnumber_plain key_plain A B C
    by (simp add: mergeFolders_unitNumberSet)
qed

section \<open>The order of the tokens\<close>

text \<open>
  Claim C5, as amended. When \<open>processFiles\<close> returns, the tokens of each category of
  that folder are in ascending order of their keys, tokens of equal key in the order in
  which the loop pushed them, provided the keys of the folder's tokens do not exceed
  \<open>MAX_SAFE_INTEGER\<close> (beyond it the program compares rounded numbers); a token without
  a digit has the key 0. The list that the run keeps for a category is the lists of the
  folders one after the other, in the order of the folders, under the same proviso for
  each folder. Within one folder the tokens with 03, 01 and 10 come out as 01, 03, 10.
\<close>

theorem token_order:
  "(exactKeys (filenamePartsByCategory (foldl (fileStep e) initialState files)) \<longrightarrow>
      sorted (map tokenKey (partsKOUNYUU (filenamePartsByCategory (processFiles e files))))
    \<and> sorted (map tokenKey (partsSEISAKU (filenamePartsByCategory (processFiles e files))))
    \<and> sorted (map tokenKey (partsDENKI (filenamePartsByCategory (processFiles e files))))
    \<and> filter (\<lambda>t. tokenKey t = n) (partsKOUNYUU (filenamePartsByCategory (processFiles e files)))
        = filter (\<lambda>t. tokenKey t = n)
            (partsKOUNYUU (filenamePartsByCategory (foldl (fileStep e) initialState files)))
    \<and> filter (\<lambda>t. tokenKey t = n) (partsSEISAKU (filenamePartsByCategory (processFiles e files)))
        = filter (\<lambda>t. tokenKey t = n)
            (partsSEISAKU (filenamePartsByCategory (foldl (fileStep e) initialState files)))
    \<and> filter (\<lambda>t. tokenKey t = n) (partsDENKI (filenamePartsByCategory (processFiles e files)))
        = filter (\<lambda>t. tokenKey t = n)
            (partsDENKI (filenamePartsByCategory (foldl (fileStep e) initialState files))))
   \<and> (digitsOnly t = [] \<longrightarrow> tokenKey t = 0)
   \<and> ((\<forall>g \<in> set gs.
          exactKeys (filenamePartsByCategory (foldl (fileStep e) initialState (folderFiles g)))) \<longrightarrow>
      partsKOUNYUU (filenamePartsByCategory (mergeFolders e gs))
        = concat (map (\<lambda>g. partsKOUNYUU (filenamePartsByCategory (processFiles e (folderFiles g)))) gs)
    \<and> partsSEISAKU (filenamePartsByCategory (mergeFolders e gs))
        = concat (map (\<lambda>g. partsSEISAKU (filenamePartsByCategory (processFiles e (folderFiles g)))) gs)
    \<and> partsDENKI (filenamePartsByCategory (mergeFolders e gs))
        = concat (map (\<lambda>g. partsDENKI (filenamePartsByCategory (processFiles e (folderFiles g)))) gs))
   \<and> exactKeys
        \<lparr>partsKOUNYUU = [36092 # ascii ''03'', 36092 # ascii ''01'', 36092 # ascii ''10''],
         partsSEISAKU = [], partsDENKI = []\<rparr>
   \<and> partsKOUNYUU (sortParts
         \<lparr>partsKOUNYUU = [36092 # ascii ''03'', 36092 # ascii ''01'', 36092 # ascii ''10''],
          partsSEISAKU = [], partsDENKI = []\<rparr>)
       = [36092 # ascii ''01'', 36092 # ascii ''03'', 36092 # ascii ''10'']"
  by (simp add: processFiles_parts sort_key_stable mergeFolders_parts tokenKey_no_digits
      tokenKey_samples exactKeys_def MAX_SAFE_INTEGER_def)

text \<open>A folder with the lists of the units 3, 1 and 10, in this order.\<close>

lemma valid_unit3: "hasValidExtension (fileName unit3Doc)"
  by (simp add: unit3Doc_def hasValidExtension_def validExtensions_def endsWith_def
      toLowerCase_def string_evals)

lemma valid_unit10: "hasValidExtension (fileName unit10Doc)"
  by (simp add: unit10Doc_def hasValidExtension_def validExtensions_def endsWith_def
      toLowerCase_def string_evals)

lemma category_unit3: "determineCategory (fileName unit3Doc) = KOUNYUU"
  by (simp add: unit3Doc_def string_evals)

lemma category_unit10: "determineCategory (fileName unit10Doc) = KOUNYUU"
  by (simp add: unit10Doc_def string_evals)

lemma data_unit3:
  "processExcelFile sampleEnv unit3Doc =
     Some ([normalHeader, (normalRow 7 (ascii ''ok''))[1 := CNum 3]], KOUNYUU)"
proof -
  have s: "sheetValues unit3Doc = Some (sampleHeader # [(sampleRow 7 (ascii ''ok''))[1 := CNum 3]])"
    by (simp add: unit3Doc_def)
  show ?thesis
    unfolding processExcelFile_rows [OF s] category_unit3
    by (simp add: row_evals string_evals)
qed

lemma data_unit10:
  "processExcelFile sampleEnv unit10Doc =
     Some ([normalHeader, (normalRow 8 (ascii ''ok''))[1 := CNum 10]], KOUNYUU)"
proof -
  have s: "sheetValues unit10Doc = Some (sampleHeader # [(sampleRow 8 (ascii ''ok''))[1 := CNum 10]])"
    by (simp add: unit10Doc_def)
  show ?thesis
    unfolding processExcelFile_rows [OF s] category_unit10
    by (simp add: row_evals string_evals)
qed

lemma decimal_more: "decimal 3 = [51]" "decimal 10 = [49, 48]"
  by (simp_all add: decimal.simps decimal_one)

lemma key_unit3:
  "dedupKey sampleEnv unit3Doc = Some (ascii ''J0000000001_'' @ KOUNYUU @ ascii ''_3'')"
proof -
  have j: "extractJNumber (fileName unit3Doc) = ascii ''J0000000001''"
    by (simp add: unit3Doc_def string_evals)
  show ?thesis
    by (simp add: dedupKey_def data_unit3 j makeFileKey_def collectUnitNumbersForCheck_def
        normalRow_def cellAt_def decimal_more MAX_SAFE_INTEGER_def digitsOnly_def trim_def
        isWhiteSpace_def string_evals)
qed

lemma key_unit10:
  "dedupKey sampleEnv unit10Doc = Some (ascii ''J0000000001_'' @ KOUNYUU @ ascii ''_10'')"
proof -
  have j: "extractJNumber (fileName unit10Doc) = ascii ''J0000000001''"
    by (simp add: unit10Doc_def string_evals)
  show ?thesis
    by (simp add: dedupKey_def data_unit10 j makeFileKey_def collectUnitNumbersForCheck_def
        normalRow_def cellAt_def decimal_more MAX_SAFE_INTEGER_def digitsOnly_def trim_def
        isWhiteSpace_def string_evals)
qed

lemma token_unit3: "processFilename (fileName unit3Doc) KOUNYUU = 36092 # ascii ''03''"
  by (simp add: processFilename_def unit3Doc_def padStart_def toLowerCase_def string_evals)

lemma token_unit10: "processFilename (fileName unit10Doc) KOUNYUU = 36092 # ascii ''10''"
  by (simp add: processFilename_def unit10Doc_def padStart_def toLowerCase_def string_evals)

lemma loop_unit3:
  "filenamePartsByCategory (fileStep sampleEnv initialState unit3Doc)
     = \<lparr>partsKOUNYUU = [36092 # ascii ''03''], partsSEISAKU = [], partsDENKI = []\<rparr>"
  unfolding fileStep_new(3) [OF valid_unit3 data_unit3 key_unit3 fresh_initial]
  by (simp add: token_unit3 pushPart_def initialState_def emptyParts_def)

lemma loop_new:
  "filenamePartsByCategory (fileStep sampleEnv initialState scenarioNew)
     = \<lparr>partsKOUNYUU = [36092 # ascii ''01''], partsSEISAKU = [], partsDENKI = []\<rparr>"
  unfolding fileStep_new(3) [OF valid_new data_new key_new fresh_initial]
  by (simp add: token_new pushPart_def initialState_def emptyParts_def)

lemma loop_three:
  "filenamePartsByCategory (foldl (fileStep sampleEnv) initialState [unit3Doc, scenarioNew, unit10Doc])
     = \<lparr>partsKOUNYUU = [36092 # ascii ''03'', 36092 # ascii ''01'', 36092 # ascii ''10''],
        partsSEISAKU = [], partsDENKI = []\<rparr>"
proof -
  let ?s1 = "fileStep sampleEnv initialState unit3Doc"
  let ?s2 = "fileStep sampleEnv ?s1 scenarioNew"
  have reg1: "processedFileKeys ?s1 scenarioKey = None"
    unfolding fileStep_new(2) [OF valid_unit3 data_unit3 key_unit3 fresh_initial]
    by (simp add: initialState_def scenarioKey_def string_evals)
  have parts2: "filenamePartsByCategory ?s2
      = \<lparr>partsKOUNYUU = [36092 # ascii ''03'', 36092 # ascii ''01''], partsSEISAKU = [],
         partsDENKI = []\<rparr>"
    unfolding fileStep_new(3) [OF valid_new data_new key_new reg1] loop_unit3
    by (simp add: token_new pushPart_def)
  have reg2: "processedFileKeys ?s2 (ascii ''J0000000001_'' @ KOUNYUU @ ascii ''_10'') = None"
    unfolding fileStep_new(2) [OF valid_new data_new key_new reg1]
      fileStep_new(2) [OF valid_unit3 data_unit3 key_unit3 fresh_initial]
    by (simp add: initialState_def scenarioKey_def string_evals)
  have "filenamePartsByCategory (fileStep sampleEnv ?s2 unit10Doc)
      = \<lparr>partsKOUNYUU = [36092 # ascii ''03'', 36092 # ascii ''01'', 36092 # ascii ''10''],
         partsSEISAKU = [], partsDENKI = []\<rparr>"
    unfolding fileStep_new(3) [OF valid_unit10 data_unit10 key_unit10 reg2] parts2
    by (simp add: token_unit10 pushPart_def)
  then show ?thesis by simp
qed

lemma exact_samples:
  "exactKeys (filenamePartsByCategory (foldl (fileStep sampleEnv) initialState [unit3Doc, scenarioNew, unit10Doc]))"
  "exactKeys (filenamePartsByCategory (foldl (fileStep sampleEnv) initialState (folderFiles folderUnit3)))"
  "exactKeys (filenamePartsByCategory (foldl (fileStep sampleEnv) initialState (folderFiles folderNew)))"
proof -
  show "exactKeys (filenamePartsByCategory
      (foldl (fileStep sampleEnv) initialState [unit3Doc, scenarioNew, unit10Doc]))"
    unfolding loop_three by (simp add: exactKeys_def tokenKey_samples MAX_SAFE_INTEGER_def)
  have "exactKeys (filenamePartsByCategory (fileStep sampleEnv initialState unit3Doc))"
    unfolding loop_unit3 by (simp add: exactKeys_def tokenKey_samples MAX_SAFE_INTEGER_def)
  then show "exactKeys (filenamePartsByCategory
      (foldl (fileStep sampleEnv) initialState (folderFiles folderUnit3)))"
    by (simp add: folderUnit3_def)
  have "exactKeys (filenamePartsByCategory (fileStep sampleEnv initialState scenarioNew))"
    unfolding loop_new by (simp add: exactKeys_def tokenKey_samples MAX_SAFE_INTEGER_def)
  then show "exactKeys (filenamePartsByCategory
      (foldl (fileStep sampleEnv) initialState (folderFiles folderNew)))"
    by (simp add: folderNew_def)
qed

lemma parts_unit3:
  "partsKOUNYUU (filenamePartsByCategory (processFiles sampleEnv [unit3Doc])) = [36092 # ascii ''03'']"
  using loop_unit3 by (simp add: processFiles_parts)

lemma parts_new:
  "partsKOUNYUU (filenamePartsByCategory (processFiles sampleEnv [scenarioNew])) = [36092 # ascii ''01'']"
  using loop_new by (simp add: processFiles_parts)

lemma parts_three:
  "partsKOUNYUU (filenamePartsByCategory (processFiles sampleEnv (folderFiles folderThreeUnits)))
     = [36092 # ascii ''01'', 36092 # ascii ''03'', 36092 # ascii ''10'']"
proof -
  have "partsKOUNYUU (sortParts (filenamePartsByCategory
        (foldl (fileStep sampleEnv) initialState [unit3Doc, scenarioNew, unit10Doc])))
      = [36092 # ascii ''01'', 36092 # ascii ''03'', 36092 # ascii ''10'']"
    unfolding loop_three by (simp add: tokenKey_samples)
  then show ?thesis
    by (simp add: processFiles_parts folderThreeUnits_def del: foldl_Cons)
qed

theorem token_order_witness:
  "exactKeys (filenamePartsByCategory
      (foldl (fileStep sampleEnv) initialState (folderFiles folderThreeUnits)))
   \<and> partsKOUNYUU (filenamePartsByCategory
        (foldl (fileStep sampleEnv) initialState (folderFiles folderThreeUnits)))
      = [36092 # ascii ''03'', 36092 # ascii ''01'', 36092 # ascii ''10'']
   \<and> partsKOUNYUU (filenamePartsByCategory (processFiles sampleEnv (folderFiles folderThreeUnits)))
      = [36092 # ascii ''01'', 36092 # ascii ''03'', 36092 # ascii ''10'']
   \<and> sorted (map tokenKey
        (partsKOUNYUU (filenamePartsByCategory (processFiles sampleEnv (folderFiles folderThreeUnits)))))
   \<and> digitsOnly [36092] = [] \<and> tokenKey [36092] = 0
   \<and> exactKeys (filenamePartsByCategory
        (foldl (fileStep sampleEnv) initialState (folderFiles folderUnit3)))
   \<and> exactKeys (filenamePartsByCategory
        (foldl (fileStep sampleEnv) initialState (folderFiles folderNew)))
   \<and> partsKOUNYUU (filenamePartsByCategory (mergeFolders sampleEnv [folderUnit3, folderNew]))
      = [36092 # ascii ''03''] @ [36092 # ascii ''01'']"
proof -
  have files: "folderFiles folderThreeUnits = [unit3Doc, scenarioNew, unit10Doc]"
    by (simp add: folderThreeUnits_def)
  have ex: "exactKeys (filenamePartsByCategory
      (foldl (fileStep sampleEnv) initialState (folderFiles folderThreeUnits)))"
    unfolding files by (rule exact_samples(1))
  have loop: "partsKOUNYUU (filenamePartsByCategory
        (foldl (fileStep sampleEnv) initialState (folderFiles folderThreeUnits)))
      = [36092 # ascii ''03'', 36092 # ascii ''01'', 36092 # ascii ''10'']"
    unfolding files loop_three by simp
  have d: "digitsOnly [36092] = []" by (simp add: digitsOnly_def isDigit_def)
  have all: "\<forall>g \<in> set [folderUnit3, folderNew].
      exactKeys (filenamePartsByCategory (foldl (fileStep sampleEnv) initialState (folderFiles g)))"
    using exact_samples(2,3) by simp
  from token_order [of sampleEnv "folderFiles folderThreeUnits" _ "[36092]"] ex d
  have A: "sorted (map tokenKey
        (partsKOUNYUU (filenamePartsByCategory (processFiles sampleEnv (folderFiles folderThreeUnits)))))"
    and B: "tokenKey [36092] = 0"
    by blast+
  from token_order [of sampleEnv _ _ _ "[folderUnit3, folderNew]"] all
  have "partsKOUNYUU (filenamePartsByCategory (mergeFolders sampleEnv [folderUnit3, folderNew]))
      = concat (map (\<lambda>g. partsKOUNYUU (filenamePartsByCategory (processFiles sampleEnv (folderFiles g))))
          [folderUnit3, folderNew])"
    by blast
  then have C: "partsKOUNYUU (filenamePartsByCategory (mergeFolders sampleEnv [folderUnit3, folderNew]))
      = [36092 # ascii ''03''] @ [36092 # ascii ''01'']"
    by (simp add: folderUnit3_def folderNew_def parts_unit3 parts_new)
  from ex loop parts_three A d B exact_samples(2,3) C show ?thesis by blast
qed

text \<open>
  The claim as stated fails for two folders: the folder with the list of unit 3 comes
  first, the folder with the list of unit 1 second, and the purchased tokens at the end
  of the run are those of 03 and 01 in this order. The keys are 3 and 1, far below
  \<open>MAX_SAFE_INTEGER\<close>.
\<close>

theorem token_order_counterexample:
  "exactKeys (filenamePartsByCategory
      (foldl (fileStep sampleEnv) initialState (folderFiles folderUnit3)))
   \<and> exactKeys (filenamePartsByCategory
        (foldl (fileStep sampleEnv) initialState (folderFiles folderNew)))
   \<and> partsKOUNYUU (filenamePartsByCategory (mergeFolders sampleEnv [folderUnit3, folderNew]))
     = [36092 # ascii ''03'', 36092 # ascii ''01'']
   \<and> \<not> sorted (map tokenKey
         (partsKOUNYUU (filenamePartsByCategory (mergeFolders sampleEnv [folderUnit3, folderNew]))))"
proof -
  have "partsKOUNYUU (filenamePartsByCategory (mergeFolders sampleEnv [folderUnit3, folderNew]))
     = [36092 # ascii ''03'', 36092 # ascii ''01'']"
    by (simp add: mergeFolders_parts folderUnit3_def folderNew_def parts_unit3 parts_new)
  then show ?thesis
    using exact_samples(2,3) by (simp add: tokenKey_samples)
qed

section \<open>The name of the output\<close>

text \<open>
  Claim C7. The name that \<open>createSpreadsheet\<close> builds is the name the specification
  describes, with the first project number of the set (or the empty string) as project
  identifier. For the project \<open>J0000000001\<close>, one purchased token with 02, one
  fabricated token with 01 and the time stamp \<open>20240101-0000\<close>, the name is
  \<open>J0000000001_P02_F01_20240101-0000\<close>, with the letters U+8CFC and U+88FD of the
  program for P and F.
\<close>

theorem name_assembly:
  "newFileName jNumbers p ts = specName (case jNumbers of [] \<Rightarrow> [] | j # _ \<Rightarrow> j) p ts
   \<and> newFileName [ascii ''J0000000001'']
        \<lparr>partsKOUNYUU = [36092 # ascii ''02''], partsSEISAKU = [35069 # ascii ''01''],
         partsDENKI = []\<rparr>
        (ascii ''20240101-0000'')
      = ascii ''J0000000001_'' @ [36092] @ ascii ''02_'' @ [35069] @ ascii ''01_20240101-0000''"
  using newFileName_spec [of jNumbers p ts] name_example by blast

theorem name_assembly_witness:
  "newFileName [ascii ''J0000000001'']
      \<lparr>partsKOUNYUU = [36092 # ascii ''02'', 36092 # ascii ''05''], partsSEISAKU = [],
       partsDENKI = [[38651], [38651]]\<rparr>
      (ascii ''20240101-0000'')
    = ascii ''J0000000001_'' @ [36092] @ ascii ''02-05_'' @ [38651] @ ascii ''_20240101-0000''"
proof -
  from name_assembly [of "[ascii ''J0000000001'']"
      "\<lparr>partsKOUNYUU = [36092 # ascii ''02'', 36092 # ascii ''05''], partsSEISAKU = [],
        partsDENKI = [[38651], [38651]]\<rparr>" "ascii ''20240101-0000''"]
  show ?thesis
    by (simp add: specName_def specCategoryTokens_def joinWith_def ascii_def underscore_def)
qed

text \<open>
  Claim C10. The name starts with the first element of the set of project numbers and
  does not depend on the others; with an empty set the project part is empty and the
  name starts with an underscore, that of the token segments or that of the time stamp.
  The set holds the project numbers of the file names of the run in the order in which
  the files are met, so its first element is the first project number met.
\<close>

theorem name_project_number:
  "newFileName (j # js) p ts = j @ newFileName [] p ts
   \<and> newFileName [] p ts = specName [] p ts
   \<and> (\<exists>rest. newFileName [] p ts = underscore # rest)
   \<and> jNumberSet (mergeFolders e gs) = insertAll [] (jNumbersOf (concat (map folderFiles gs)))
   \<and> (jNumbersOf (concat (map folderFiles gs)) \<noteq> [] \<longrightarrow>
        hd (jNumberSet (mergeFolders e gs)) = hd (jNumbersOf (concat (map folderFiles gs))))
   \<and> (jNumbersOf (concat (map folderFiles gs)) = [] \<longrightarrow> jNumberSet (mergeFolders e gs) = [])"
proof -
  have A: "newFileName [] p ts = specName [] p ts"
    using newFileName_spec [of "[]" p ts] by simp
  have B: "jNumbersOf (concat (map folderFiles gs)) \<noteq> [] \<longrightarrow>
        hd (jNumberSet (mergeFolders e gs)) = hd (jNumbersOf (concat (map folderFiles gs)))"
    by (simp add: mergeFolders_jNumberSet hd_insertAll_Nil)
  have C: "jNumbersOf (concat (map folderFiles gs)) = [] \<longrightarrow> jNumberSet (mergeFolders e gs) = []"
    by (simp add: mergeFolders_jNumberSet)
  from newFileName_first [of j js p ts] A newFileName_none [of p ts]
    mergeFolders_jNumberSet [of e gs] B C
  show ?thesis by blast
qed

lemma jNumbers_two:
  "jNumbersOf (concat (map folderFiles [folderTwoProjects]))
     = [ascii ''J0000000001'', ascii ''J0000000002'']"
proof -
  have v: "hasValidExtension (fileName otherProject)"
    by (simp add: otherProject_def hasValidExtension_def validExtensions_def endsWith_def
        toLowerCase_def string_evals)
  have j: "extractJNumber (fileName otherProject) = ascii ''J0000000002''"
    by (simp add: otherProject_def string_evals)
  show ?thesis
    by (simp add: jNumbersOf_def folderTwoProjects_def valid_old jnumber_old v j ascii_def)
qed

lemma jNumbers_plain: "jNumbersOf (concat (map folderFiles [folderPlain])) = []"
  by (simp add: jNumbersOf_def folderPlain_def jnumber_plain)

theorem name_project_number_witness:
  "jNumbersOf (concat (map folderFiles [folderTwoProjects]))
     = [ascii ''J0000000001'', ascii ''J0000000002'']
   \<and> hd (jNumberSet (mergeFolders sampleEnv [folderTwoProjects])) = ascii ''J0000000001''
   \<and> newFileName [ascii ''J0000000001'', ascii ''J0000000002''] emptyParts (ascii ''T'')
       = ascii ''J0000000001_T''
   \<and> jNumbersOf (concat (map folderFiles [folderPlain])) = []
   \<and> jNumberSet (mergeFolders sampleEnv [folderPlain]) = []
   \<and> newFileName [] emptyParts (ascii ''T'') = ascii ''_T''"
proof -
  have ne: "jNumbersOf (concat (map folderFiles [folderTwoProjects])) \<noteq> []"
    unfolding jNumbers_two by simp
  from name_project_number [of _ _ _ _ sampleEnv "[folderTwoProjects]"] ne
  have first: "hd (jNumberSet (mergeFolders sampleEnv [folderTwoProjects]))
      = hd (jNumbersOf (concat (map folderFiles [folderTwoProjects])))"
    by blast
  from name_project_number [of _ _ _ _ sampleEnv "[folderPlain]"] jNumbers_plain
  have none: "jNumberSet (mergeFolders sampleEnv [folderPlain]) = []"
    by blast
  from name_project_number [of "ascii ''J0000000001''" "[ascii ''J0000000002'']" emptyParts
      "ascii ''T''"]
  have name: "newFileName [ascii ''J0000000001'', ascii ''J0000000002''] emptyParts (ascii ''T'')
      = ascii ''J0000000001'' @ specName [] emptyParts (ascii ''T'')"
    and bare: "newFileName [] emptyParts (ascii ''T'') = specName [] emptyParts (ascii ''T'')"
    by simp_all
  have spec: "specName [] emptyParts (ascii ''T'') = ascii ''_T''"
    by (simp add: specName_def emptyParts_def ascii_def underscore_def)
  show ?thesis
    unfolding first none name bare spec jNumbers_two jNumbers_plain
    by (simp add: ascii_def)
qed

section \<open>The result of a run\<close>

text \<open>
  Claim C9. Whatever exception leaves the \<open>try\<close> block, \<open>combineExcelSheets\<close> returns the
  failure result with the text of the exception. No folder chosen, no sub-folder that
  passes the filter on the folder names, no file processed and no merged row each give
  the failure with the message of their \<open>throw\<close>; an exception of the platform while the
  output is written gives the failure with its text; and otherwise the result is the
  success with the URL, the number of processed files and the number of merged rows.
\<close>

theorem run_result:
  "(\<forall>x. tryBlock e w = Inl x \<longrightarrow> combineExcelSheets e w = Failure (exnToString x))
   \<and> (selectFolder w = Inr None \<or> selectFolder w = Inr (Some []) \<longrightarrow>
        combineExcelSheets e w = Failure (ascii ''Error: '' @ MSG_NOT_SELECTED))
   \<and> (selectFolder w = Inr (Some folderId) \<and> folderId \<noteq> []
        \<and> getFolderById w folderId = Inr (Some subFolders) \<longrightarrow>
        (filter isTargetFolder subFolders = [] \<longrightarrow>
           combineExcelSheets e w = Failure (ascii ''Error: '' @ MSG_NO_FOLDERS))
      \<and> (filter isTargetFolder subFolders \<noteq> []
           \<and> processedFiles (mergeFolders e (filter isTargetFolder subFolders)) = 0 \<longrightarrow>
           combineExcelSheets e w = Failure (ascii ''Error: '' @ MSG_NO_FILES))
      \<and> (filter isTargetFolder subFolders \<noteq> []
           \<and> processedFiles (mergeFolders e (filter isTargetFolder subFolders)) \<noteq> 0
           \<and> combinedDataRows (mergeFolders e (filter isTargetFolder subFolders)) = [] \<longrightarrow>
           combineExcelSheets e w = Failure (ascii ''Error: '' @ MSG_NO_DATA))
      \<and> (filter isTargetFolder subFolders \<noteq> []
           \<and> processedFiles (mergeFolders e (filter isTargetFolder subFolders)) \<noteq> 0
           \<and> combinedDataRows (mergeFolders e (filter isTargetFolder subFolders)) \<noteq> [] \<longrightarrow>
           (let m = mergeFolders e (filter isTargetFolder subFolders)
            in case publish w
                      (newFileName (jNumberSet m) (filenamePartsByCategory m) (getCurrentDateTime w))
                      (finalData e (combinedDataRows m)) of
                 Inl x \<Rightarrow> combineExcelSheets e w = Failure (exnToString x)
               | Inr u \<Rightarrow>
                   combineExcelSheets e w
                     = Success u (processedFiles m) (length (combinedDataRows m)))))"
proof -
  have A: "\<forall>x. tryBlock e w = Inl x \<longrightarrow> combineExcelSheets e w = Failure (exnToString x)"
    by (simp add: combineExcelSheets_def)
  have B: "selectFolder w = Inr None \<or> selectFolder w = Inr (Some []) \<longrightarrow>
        combineExcelSheets e w = Failure (ascii ''Error: '' @ MSG_NOT_SELECTED)"
    by (auto simp: combineExcelSheets_def tryBlock_def)
  have C: "combineExcelSheets e w = Failure (ascii ''Error: '' @ MSG_NO_FOLDERS)"
    if "selectFolder w = Inr (Some folderId)" "folderId \<noteq> []"
      "getFolderById w folderId = Inr (Some subFolders)"
      "filter isTargetFolder subFolders = []"
    using that by (simp add: combineExcelSheets_def tryBlock_def)
  have D: "combineExcelSheets e w = Failure (ascii ''Error: '' @ MSG_NO_FILES)"
    if "selectFolder w = Inr (Some folderId)" "folderId \<noteq> []"
      "getFolderById w folderId = Inr (Some subFolders)"
      "filter isTargetFolder subFolders \<noteq> []"
      "processedFiles (mergeFolders e (filter isTargetFolder subFolders)) = 0"
    using that by (simp add: combineExcelSheets_def tryBlock_def Let_def)
  have E: "combineExcelSheets e w = Failure (ascii ''Error: '' @ MSG_NO_DATA)"
    if "selectFolder w = Inr (Some folderId)" "folderId \<noteq> []"
      "getFolderById w folderId = Inr (Some subFolders)"
      "filter isTargetFolder subFolders \<noteq> []"
      "processedFiles (mergeFolders e (filter isTargetFolder subFolders)) \<noteq> 0"
      "combinedDataRows (mergeFolders e (filter isTargetFolder subFolders)) = []"
    using that by (simp add: combineExcelSheets_def tryBlock_def Let_def)
  have F: "(let m = mergeFolders e (filter isTargetFolder subFolders)
            in case publish w
                      (newFileName (jNumberSet m) (filenamePartsByCategory m) (getCurrentDateTime w))
                      (finalData e (combinedDataRows m)) of
                 Inl x \<Rightarrow> combineExcelSheets e w = Failure (exnToString x)
               | Inr u \<Rightarrow>
                   combineExcelSheets e w
                     = Success u (processedFiles m) (length (combinedDataRows m)))"
    if "selectFolder w = Inr (Some folderId)" "folderId \<noteq> []"
      "getFolderById w folderId = Inr (Some subFolders)"
      "filter isTargetFolder subFolders \<noteq> []"
      "processedFiles (mergeFolders e (filter isTargetFolder subFolders)) \<noteq> 0"
      "combinedDataRows (mergeFolders e (filter isTargetFolder subFolders)) \<noteq> []"
    using that
    by (simp add: combineExcelSheets_def tryBlock_def createSpreadsheet_def Let_def
        split: sum.splits)
  from A B C D E F show ?thesis by blast
qed


text \<open>The runs of the sample worlds.\<close>

lemma world_fields:
  "selectFolder scenarioWorld = Inr (Some (ascii ''root''))"
  "getFolderById scenarioWorld folderId = Inr (Some [folderOld, folderNew])"
  "publish scenarioWorld name rows = Inr (ascii ''https://sheets/'' @ name)"
  "getCurrentDateTime scenarioWorld = ascii ''20240101-0000''"
  "selectFolder (worldWith subFolders) = Inr (Some (ascii ''root''))"
  "getFolderById (worldWith subFolders) folderId = Inr (Some subFolders)"
  "selectFolder worldPublishFails = Inr (Some (ascii ''root''))"
  "getFolderById worldPublishFails folderId = Inr (Some [folderOld, folderNew])"
  "publish worldPublishFails name rows = Inl (Thrown (ascii ''Exception: quota''))"
  "selectFolder worldCancelled = Inr None"
  by (simp_all add: scenarioWorld_def worldWith_def worldPublishFails_def worldCancelled_def)

lemma includes_self: "includesStr BUHIN_LIST BUHIN_LIST"
  by (simp add: BUHIN_LIST_def startsWith_def)

lemma target_samples:
  "\<not> isTargetFolder folderMarked" "isTargetFolder folderNotes" "isTargetFolder folderTitles"
  by (simp_all add: isTargetFolder_def folderMarked_def folderNotes_def folderTitles_def
      includes_self startsWith_def BUHIN_LIST_def ascii_def)

lemma notes_count: "processedFiles (mergeFolders sampleEnv [folderNotes]) = 0"
proof -
  have "\<not> hasValidExtension (ascii ''notes.txt'')"
    by (simp add: hasValidExtension_def validExtensions_def endsWith_def toLowerCase_def ascii_def)
  then show ?thesis
    by (simp add: mergeFolders_def mergeFolder_def processFiles_def Let_def folderNotes_def
        emptySummary_def fileStep_def initialState_def)
qed

lemma valid_titles:
  "hasValidExtension (fileName titleOld)" "hasValidExtension (fileName titleNew)"
  using valid_old valid_new by (simp_all add: titleOld_def titleNew_def)

lemma category_titles:
  "determineCategory (fileName titleOld) = KOUNYUU" "determineCategory (fileName titleNew) = KOUNYUU"
  using category_old category_new by (simp_all add: titleOld_def titleNew_def)

lemma data_titleOld:
  "processExcelFile sampleEnv titleOld
     = Some ([[CStr (ascii ''D''), CStr (fileName scenarioOld)]], KOUNYUU)"
proof -
  have s: "sheetValues titleOld = Some ([CStr (ascii ''No''), CStr (fileName scenarioOld)] # [])"
    by (simp add: titleOld_def)
  show ?thesis
    unfolding processExcelFile_rows [OF s] category_titles
    by (simp add: sampleEnv_def pruneRow_def REQUIRED_COLUMN_COUNT_def REMOVE_COLUMN_COUNT_def)
qed

lemma data_titleNew:
  "processExcelFile sampleEnv titleNew
     = Some ([[CStr (ascii ''D''), CStr (ascii ''Unit'')]], KOUNYUU)"
proof -
  have s: "sheetValues titleNew = Some ([CStr (ascii ''No''), CStr (ascii ''Unit'')] # [])"
    by (simp add: titleNew_def)
  show ?thesis
    unfolding processExcelFile_rows [OF s] category_titles
    by (simp add: sampleEnv_def pruneRow_def REQUIRED_COLUMN_COUNT_def REMOVE_COLUMN_COUNT_def)
qed

lemma key_titles:
  "dedupKey sampleEnv titleOld = Some (ascii ''J0000000001_'' @ KOUNYUU @ ascii ''_'')"
  "dedupKey sampleEnv titleNew = Some (ascii ''J0000000001_'' @ KOUNYUU @ ascii ''_'')"
proof -
  have j: "extractJNumber (fileName titleOld) = ascii ''J0000000001''"
    "extractJNumber (fileName titleNew) = ascii ''J0000000001''"
    using jnumber_old jnumber_new by (simp_all add: titleOld_def titleNew_def)
  show "dedupKey sampleEnv titleOld = Some (ascii ''J0000000001_'' @ KOUNYUU @ ascii ''_'')"
    by (simp add: dedupKey_def data_titleOld j makeFileKey_def collectUnitNumbersForCheck_def
        string_evals)
  show "dedupKey sampleEnv titleNew = Some (ascii ''J0000000001_'' @ KOUNYUU @ ascii ''_'')"
    by (simp add: dedupKey_def data_titleNew j makeFileKey_def collectUnitNumbersForCheck_def
        string_evals)
qed

lemma date_titles:
  "revisionDate titleOld = Some 20240105" "revisionDate titleNew = Some 20240110"
  using date_old date_new by (simp_all add: revisionDate_def titleOld_def titleNew_def)

lemma titles_state:
  "combinedDataRows (foldl (fileStep sampleEnv) initialState [titleOld, titleNew]) = []"
  "processedFiles (foldl (fileStep sampleEnv) initialState [titleOld, titleNew]) = 2"
proof -
  let ?s = "fileStep sampleEnv initialState titleOld"
  let ?k = "ascii ''J0000000001_'' @ KOUNYUU @ ascii ''_''"
  have rows1: "combinedDataRows ?s = [[CStr (ascii ''D''), CStr (fileName scenarioOld)]]"
    unfolding fileStep_new(1) [OF valid_titles(1) data_titleOld key_titles(1) fresh_initial]
    by (simp add: initialState_def)
  have count1: "processedFiles ?s = 1"
    unfolding fileStep_new(4) [OF valid_titles(1) data_titleOld key_titles(1) fresh_initial]
    by (simp add: initialState_def)
  have reg1: "processedFileKeys ?s ?k = Some (fileName titleOld, Some 20240105)"
    unfolding fileStep_new(2) [OF valid_titles(1) data_titleOld key_titles(1) fresh_initial]
    by (simp add: date_titles)
  have newer: "jsGreater (revisionDate titleNew) (Some 20240105)"
    by (simp add: date_titles)
  have name: "fileName titleOld = fileName scenarioOld"
    by (simp add: titleOld_def)
  have "combinedDataRows (fileStep sampleEnv ?s titleNew) = []"
    unfolding fileStep_supersede(1) [OF valid_titles(2) data_titleNew key_titles(2) reg1 newer]
    by (simp add: rows1 rowIncludes_def name)
  then show "combinedDataRows (foldl (fileStep sampleEnv) initialState [titleOld, titleNew]) = []"
    by simp
  have "processedFiles (fileStep sampleEnv ?s titleNew) = 2"
    unfolding fileStep_supersede(4) [OF valid_titles(2) data_titleNew key_titles(2) reg1 newer]
    by (simp add: count1)
  then show "processedFiles (foldl (fileStep sampleEnv) initialState [titleOld, titleNew]) = 2"
    by simp
qed

lemma processFiles_rows:
  "combinedDataRows (processFiles e fs) = combinedDataRows (foldl (fileStep e) initialState fs)"
  "processedFiles (processFiles e fs) = processedFiles (foldl (fileStep e) initialState fs)"
  by (simp_all add: processFiles_def Let_def)

lemma mergeFolders_single:
  "combinedDataRows (mergeFolders e [g]) = combinedDataRows (processFiles e (folderFiles g))"
  "processedFiles (mergeFolders e [g]) = processedFiles (processFiles e (folderFiles g))"
  by (simp_all add: mergeFolders_def mergeFolder_def Let_def emptySummary_def)

lemma titles_merged:
  "combinedDataRows (mergeFolders sampleEnv [folderTitles]) = []"
  "processedFiles (mergeFolders sampleEnv [folderTitles]) = 2"
  by (simp_all add: mergeFolders_single processFiles_rows folderTitles_def titles_state
      del: foldl_Cons)

lemma onlyNew_parts:
  "filenamePartsByCategory (fileStep sampleEnv initialState scenarioNew) =
     \<lparr>partsKOUNYUU = [36092 # ascii ''01''], partsSEISAKU = [], partsDENKI = []\<rparr>"
  unfolding fileStep_new(3) [OF valid_new data_new key_new fresh_initial]
  by (simp add: token_new initialState_def emptyParts_def pushPart_def)

lemma scenario_name:
  "newFileName (jNumberSet (mergeFolders sampleEnv [folderOld, folderNew]))
      (filenamePartsByCategory (mergeFolders sampleEnv [folderOld, folderNew]))
      (ascii ''20240101-0000'')
    = ascii ''J0000000001_'' @ [36092] @ ascii ''01-01_20240101-0000''"
proof -
  have old: "filenamePartsByCategory (processFiles sampleEnv [scenarioOld])
      = \<lparr>partsKOUNYUU = [36092 # ascii ''01''], partsSEISAKU = [], partsDENKI = []\<rparr>"
    using afterOld_parts by (simp add: processFiles_parts afterOld_def sortParts_def)
  have new: "filenamePartsByCategory (processFiles sampleEnv [scenarioNew])
      = \<lparr>partsKOUNYUU = [36092 # ascii ''01''], partsSEISAKU = [], partsDENKI = []\<rparr>"
    using onlyNew_parts by (simp add: processFiles_parts sortParts_def)
  have parts: "partsKOUNYUU (filenamePartsByCategory (mergeFolders sampleEnv [folderOld, folderNew]))
        = [36092 # ascii ''01'', 36092 # ascii ''01'']"
    "partsSEISAKU (filenamePartsByCategory (mergeFolders sampleEnv [folderOld, folderNew])) = []"
    "partsDENKI (filenamePartsByCategory (mergeFolders sampleEnv [folderOld, folderNew])) = []"
    by (simp_all add: mergeFolders_parts folderOld_def folderNew_def old new)
  show ?thesis
    unfolding newFileName_def parts merged_jNumberSet
    by (simp add: joinWith_def ascii_def underscore_def)
qed

theorem run_result_witness:
  "combineExcelSheets sampleEnv scenarioWorld
     = Success (ascii ''https://sheets/J0000000001_'' @ [36092] @ ascii ''01-01_20240101-0000'') 2 7
   \<and> combineExcelSheets sampleEnv worldCancelled = Failure (ascii ''Error: '' @ MSG_NOT_SELECTED)
   \<and> combineExcelSheets sampleEnv (worldWith [folderMarked])
       = Failure (ascii ''Error: '' @ MSG_NO_FOLDERS)
   \<and> combineExcelSheets sampleEnv (worldWith [folderNotes])
       = Failure (ascii ''Error: '' @ MSG_NO_FILES)
   \<and> combineExcelSheets sampleEnv (worldWith [folderTitles])
       = Failure (ascii ''Error: '' @ MSG_NO_DATA)
   \<and> combineExcelSheets sampleEnv worldPublishFails = Failure (ascii ''Exception: quota'')"
proof -
  have targets: "filter isTargetFolder [folderOld, folderNew] = [folderOld, folderNew]"
    "filter isTargetFolder [folderMarked] = []"
    "filter isTargetFolder [folderNotes] = [folderNotes]"
    "filter isTargetFolder [folderTitles] = [folderTitles]"
    by (simp_all add: target_folders target_samples)
  have rows: "combinedDataRows (mergeFolders sampleEnv [folderOld, folderNew]) \<noteq> []"
    by (simp add: merged_rows)
  have root: "ascii ''root'' \<noteq> []"
    by (simp add: ascii_def)
  have A: "combineExcelSheets sampleEnv scenarioWorld
     = Success (ascii ''https://sheets/J0000000001_'' @ [36092] @ ascii ''01-01_20240101-0000'') 2 7"
    using run_result [of sampleEnv scenarioWorld "ascii ''root''" "[folderOld, folderNew]"] rows root
    unfolding targets world_fields merged_count merged_length scenario_name Let_def
    by (simp add: ascii_def)
  have B: "combineExcelSheets sampleEnv worldCancelled = Failure (ascii ''Error: '' @ MSG_NOT_SELECTED)"
    using run_result [of sampleEnv worldCancelled] by (simp add: world_fields)
  have C: "combineExcelSheets sampleEnv (worldWith [folderMarked])
       = Failure (ascii ''Error: '' @ MSG_NO_FOLDERS)"
    using run_result [of sampleEnv "worldWith [folderMarked]" "ascii ''root''" "[folderMarked]"] root
    unfolding targets world_fields by simp
  have D: "combineExcelSheets sampleEnv (worldWith [folderNotes])
       = Failure (ascii ''Error: '' @ MSG_NO_FILES)"
    using run_result [of sampleEnv "worldWith [folderNotes]" "ascii ''root''" "[folderNotes]"] root
    unfolding targets world_fields notes_count by simp
  have E: "combineExcelSheets sampleEnv (worldWith [folderTitles])
       = Failure (ascii ''Error: '' @ MSG_NO_DATA)"
    using run_result [of sampleEnv "worldWith [folderTitles]" "ascii ''root''" "[folderTitles]"] root
    unfolding targets world_fields titles_merged by simp
  have F: "combineExcelSheets sampleEnv worldPublishFails = Failure (ascii ''Exception: quota'')"
    using run_result [of sampleEnv worldPublishFails "ascii ''root''" "[folderOld, folderNew]"] rows root
    unfolding targets world_fields merged_count Let_def
    by simp
  from A B C D E F show ?thesis by blast
qed

end
